theory Spec2Isabelle
  imports Complex_Main
begin

section \<open>The process-global token (cloudcix\_token.py)\<close>

text \<open>
  A \<open>datetime\<close> is a count of microseconds on the UTC time line. The difference of two
  datetimes is a \<open>timedelta\<close>, which Python stores normalised as days, seconds within
  the day (0 to 86399) and microseconds within the second; the attribute \<open>.seconds\<close>
  reads the middle component only.
\<close>

type_synonym datetime = int

definition timedelta_days :: "int \<Rightarrow> int" where
  "timedelta_days d = d div 86400000000"

definition timedelta_seconds :: "int \<Rightarrow> int" where
  "timedelta_seconds d = (d mod 86400000000) div 1000000"

definition timedelta_microseconds :: "int \<Rightarrow> int" where
  "timedelta_microseconds d = d mod 1000000"

text \<open>
  The \<open>Token\<close> instance: \<open>self._token\<close> and \<open>self._created\<close>.
\<close>

record Token =
  token_value :: string
  created :: datetime

definition THRESHOLD :: real where
  "THRESHOLD = 40"

text \<open>
  The property \<open>Token.token\<close>. The first argument is the instance; \<open>now\<close> is what
  \<open>datetime.utcnow()\<close> returns at the test, \<open>fresh\<close> what \<open>get_admin_token()\<close> would
  return and \<open>now'\<close> what \<open>datetime.utcnow()\<close> returns after it. The result is the
  returned token string and the instance afterwards. The true division by 60 is
  taken over the reals: for a whole number of seconds below 86400 the comparison with 40
  is the same in floating point.
\<close>

definition token :: "Token \<Rightarrow> datetime \<Rightarrow> string \<Rightarrow> datetime \<Rightarrow> string \<times> Token" where
  "token self now fresh now' =
     (if real_of_int (timedelta_seconds (now - created self)) / 60 > THRESHOLD
      then (fresh, self\<lparr>token_value := fresh, created := now'\<rparr>)
      else (token_value self, self))"

text \<open>The age of the token in whole minutes and beyond, as the claim measures it.\<close>

definition minutes :: "int \<Rightarrow> int" where
  "minutes m = m * 60000000"

section \<open>Resource states\<close>

text \<open>
  Modelled from the spec: the module \<open>state\<close> (state.py), which the workers import for
  the constants \<open>state.REQUESTED\<close>, \<open>state.BUILDING\<close> and so on, is not among the source
  files. The canonical states are those the specification lists in its data model.
\<close>

datatype state =
    REQUESTED | BUILDING | RUNNING | QUIESCE | QUIESCING | QUIESCED | RESTART | RESTARTING
  | SCRUB | SCRUB_PREP | SCRUB_QUEUE | SCRUBBING | CLOSED | RUNNING_UPDATE | RUNNING_UPDATING
  | QUIESCED_UPDATE | QUIESCED_UPDATING | UNRESOURCED

section \<open>The IaaS API as the workers see it\<close>

text \<open>The clients \<open>IAAS.backup\<close>, \<open>IAAS.server\<close>, ... of the API library.\<close>

datatype client =
  IAAS_backup | IAAS_server | IAAS_snapshot | IAAS_virtual_router | IAAS_vm | IAAS_vpn

text \<open>
  The JSON object of a resource, with the entries the workers subscript:
  \<open>['id']\<close>, \<open>['state']\<close>, \<open>['project']['id']\<close>, \<open>['project']['virtual_router_id']\<close>,
  the server id (\<open>['server_id']\<close> of a VM, \<open>['vm']['server_id']\<close> of a backup or snapshot),
  \<open>['type']['name']\<close> of a server, and \<open>['debug_logging']\<close> of each of a router's firewall
  rules. An object of one kind leaves the entries of the other kinds unused. The empty
  dict \<open>{}\<close> is \<open>None\<close> of type \<open>resource option\<close>; \<open>bool(obj)\<close> is then
  \<open>obj \<noteq> None\<close>, and subscripting \<open>{}\<close> raises \<open>KeyError\<close>.
\<close>

record resource =
  ident :: int
  state :: state
  project_id :: int
  virtual_router_id :: int
  server_id :: int
  type_name :: string
  debug_logging :: "bool list"

text \<open>A VPN as the router workers use it after the driver has run: \<open>['id']\<close> and \<open>['send_email']\<close>.\<close>

record vpn =
  vpn_id :: int
  send_email :: bool

text \<open>
  An HTTP response: \<open>status_code\<close>, \<open>json()['detail']\<close>, \<open>json()['content']\<close>, and for
  a list response \<open>json()['_metadata']['total_records']\<close>.
\<close>

record 'a response =
  status_code :: int
  detail :: string
  content :: 'a

record 'a list_response = "'a response" +
  total_records :: int

text \<open>The \<open>data\<close> of a partial update.\<close>

datatype data = State state | State_time_valid state | Send_email bool | Debug bool

text \<open>List parameters: the filters of the request without the \<open>page\<close> entry.\<close>

datatype param = P_int int | P_state state

type_synonym params = "(string \<times> param) list"

datatype request =
    Read client int
  | List_page client params nat
  | Partial_update client int data

text \<open>
  The remote drivers. \<open>WindowsVM\<close>, \<open>WindowsBackup\<close>, \<open>WindowsSnapshot\<close> work over WinRM,
  \<open>LinuxVM\<close>, \<open>LinuxBackup\<close>, \<open>LinuxSnapshot\<close> over SSH to the hypervisor and the
  \<open>VirtualRouter\<close> classes over SSH to PodNet. A call such as \<open>LinuxVM.build(vm, span)\<close>
  is one step of a worker: it renders the templates and runs the script on the host, and
  it is the only place where a worker reaches a host.
\<close>

datatype platform = Windows | Linux | PodNet

datatype operation = Build | Update | Quiesce | Restart | Scrub | Debug_logs

text \<open>
  What a worker does, in order: requests to the API, calls of a remote driver, tasks
  scheduled with \<open>apply_async(eta = now + seconds)\<close>, calls of the \<open>EmailNotifier\<close> and of
  \<open>metrics\<close>.
\<close>

datatype event =
    Request request
  | Remote platform operation client int
  | Apply_async operation client int nat
  | Email string int
  | Metric string

type_synonym trace = "event list"

text \<open>
  The world outside the worker. The API answers a request as a function of the request
  and of the number of events of the run so far, so that the same request may be answered
  differently when it is repeated. \<open>remote\<close> is the result of a driver call: \<open>Some\<close> of the
  success flag it returns, or \<open>None\<close> when it raises an exception. \<open>vpns_after\<close> is
  \<open>virtual_router.get('vpns', [])\<close> once the router driver has returned, and
  \<open>vpn_email_ok\<close> tells whether the notifier call for a VPN returns without raising.
\<close>

record env =
  read_response :: "nat \<Rightarrow> client \<Rightarrow> int \<Rightarrow> resource option response"
  list_response :: "nat \<Rightarrow> client \<Rightarrow> params \<Rightarrow> nat \<Rightarrow> resource list list_response"
  update_status :: "nat \<Rightarrow> client \<Rightarrow> int \<Rightarrow> data \<Rightarrow> int"
  remote :: "platform \<Rightarrow> operation \<Rightarrow> client \<Rightarrow> int \<Rightarrow> bool option"
  vpns_after :: "int \<Rightarrow> vpn list"
  vpn_email_ok :: "int \<Rightarrow> bool"

datatype exn = RecursionError | KeyError

text \<open>\<open>client.read(token, pk)\<close>, \<open>client.list(token, params)\<close>, \<open>client.partial_update(token, pk, data)\<close>.\<close>

definition read_call :: "env \<Rightarrow> client \<Rightarrow> int \<Rightarrow> trace \<Rightarrow> resource option response \<times> trace" where
  "read_call env c pk w = (read_response env (length w) c pk, w @ [Request (Read c pk)])"

definition list_call ::
  "env \<Rightarrow> client \<Rightarrow> params \<Rightarrow> nat \<Rightarrow> trace \<Rightarrow> resource list list_response \<times> trace" where
  "list_call env c ps page w =
     (list_response env (length w) c ps page, w @ [Request (List_page c ps page)])"

definition partial_update :: "env \<Rightarrow> client \<Rightarrow> int \<Rightarrow> data \<Rightarrow> trace \<Rightarrow> int \<times> trace" where
  "partial_update env c pk d w =
     (update_status env (length w) c pk d, w @ [Request (Partial_update c pk d)])"

text \<open>A driver call inside \<open>try: ... except Exception\<close>: the flag stays \<open>False\<close> when it raises.\<close>

definition run_driver ::
  "env \<Rightarrow> platform \<Rightarrow> operation \<Rightarrow> client \<Rightarrow> int \<Rightarrow> trace \<Rightarrow> bool \<times> trace" where
  "run_driver env p op c pk w =
     ((case remote env p op c pk of Some success \<Rightarrow> success | None \<Rightarrow> False),
      w @ [Remote p op c pk])"

subsection \<open>utils.py\<close>

text \<open>The test \<open>'token is expired' in detail\<close>: \<open>sub\<close> occurs in \<open>s\<close> as a substring.\<close>

fun starts_with :: "string \<Rightarrow> string \<Rightarrow> bool" where
  "starts_with [] s = True"
| "starts_with (a # sub) [] = False"
| "starts_with (a # sub) (b # s) = (a = b \<and> starts_with sub s)"

fun contains :: "string \<Rightarrow> string \<Rightarrow> bool" where
  "contains sub [] = starts_with sub []"
| "contains sub (b # s) = (starts_with sub (b # s) \<or> contains sub s)"

definition token_expired :: "('a, 'b) response_scheme \<Rightarrow> bool" where
  "token_expired r = (status_code r = 401 \<and> contains ''token is expired'' (detail r))"

text \<open>
  \<open>api_read\<close>. On a token-expired response it calls itself again; \<open>depth\<close> is the number of
  nested calls the interpreter still allows, and with none left the call raises
  \<open>RecursionError\<close>.
\<close>

fun api_read :: "env \<Rightarrow> nat \<Rightarrow> client \<Rightarrow> int \<Rightarrow> trace \<Rightarrow> (exn + resource option) \<times> trace" where
  "api_read env 0 c pk w = (Inl RecursionError, w)"
| "api_read env (Suc depth) c pk w =
     (let (response, w1) = read_call env c pk w in
      if token_expired response then api_read env depth c pk w1
      else if status_code response = 200 then (Inr (content response), w1)
      else (Inr None, w1))"

text \<open>
  \<open>api_list\<close>. \<open>fetch_pages\<close> is its loop \<open>while len(objects) < total_records\<close>; the
  loop has no bound of its own, and a run that never leaves it is the value \<open>None\<close>.
  In the loop a token-expired response only assigns into a throw-away copy of the
  body, and is then handled as any other status that is not 200.
\<close>

partial_function (option) fetch_pages ::
  "env \<Rightarrow> client \<Rightarrow> params \<Rightarrow> int \<Rightarrow> nat \<Rightarrow> resource list \<Rightarrow> trace \<Rightarrow> (resource list \<times> trace) option"
where
  "fetch_pages env c ps total_n page objects w =
     (if int (length objects) < total_n then
        (let response = fst (list_call env c ps (page + 1) w);
             w1 = snd (list_call env c ps (page + 1) w) in
         if status_code response \<noteq> 200 then Some (objects, w1)
         else fetch_pages env c ps total_n (page + 1) (objects @ content response) w1)
      else Some (objects, w))"

fun api_list ::
  "env \<Rightarrow> nat \<Rightarrow> client \<Rightarrow> params \<Rightarrow> trace \<Rightarrow> ((exn + resource list) \<times> trace) option" where
  "api_list env 0 c ps w = Some (Inl RecursionError, w)"
| "api_list env (Suc depth) c ps w =
     (let (response, w1) = list_call env c ps 0 w in
      if token_expired response then api_list env depth c ps w1
      else if status_code response \<noteq> 200 then Some (Inr [], w1)
      else map_option (\<lambda>(objects, w2). (Inr objects, w2))
             (fetch_pages env c ps (total_records response) 0 (content response) w1))"

section \<open>The workers (tasks/)\<close>

text \<open>
  A worker takes the environment, the recursion depth left to \<open>api_read\<close>, the id it was
  dispatched with and the trace so far. It gives back the exception that escaped it, if
  any, and the trace. The \<open>errors\<close> list that a worker keeps on the resource for the
  failure email, the log lines and the tracing spans do not decide what a worker does and
  are left out.

  \<open>unresource\<close> is the helper \<open>_unresource\<close> that most task modules define, and the same
  three steps where a module writes them inline: the failure metric, the update to
  \<open>UNRESOURCED\<close> (whose status is only logged) and the failure email.
\<close>

definition unresource :: "env \<Rightarrow> client \<Rightarrow> string \<Rightarrow> string \<Rightarrow> int \<Rightarrow> trace \<Rightarrow> trace" where
  "unresource env c metric email pk w =
     (let w1 = w @ [Metric metric];
          (status, w2) = partial_update env c pk (State UNRESOURCED) w1
      in w2 @ [Email email pk])"

subsection \<open>tasks/vm/build.py\<close>

text \<open>The part of \<open>_build_vm\<close> after the server has been read: the builder and the final state.\<close>

definition build_vm_run :: "env \<Rightarrow> int \<Rightarrow> resource \<Rightarrow> resource \<Rightarrow> trace \<Rightarrow> trace" where
  "build_vm_run env vm_id vm server w =
     (let (success, send_mail, w1) =
        (if type_name server = ''HyperV'' then
           (let (s, w') = run_driver env Windows Build IAAS_vm (ident vm) w in (s, True, w'))
         else if type_name server = ''KVM'' then
           (let (s, w') = run_driver env Linux Build IAAS_vm (ident vm) w in (s, True, w'))
         else if type_name server = ''Phantom'' then (True, False, w)
         else (False, True, w))
      in if success then
           (let (status, w2) = partial_update env IAAS_vm vm_id (State RUNNING) w1;
                w3 = (if send_mail then w2 @ [Email ''vm_build_success'' (ident vm)] else w2)
            in w3 @ [Metric ''vm_build_success''])
         else unresource env IAAS_vm ''vm_build_failure'' ''vm_build_failure'' (ident vm) w1)"

text \<open>The part of \<open>_build_vm\<close> from the update to \<open>BUILDING\<close> on.\<close>

definition build_vm_building ::
  "env \<Rightarrow> nat \<Rightarrow> int \<Rightarrow> resource \<Rightarrow> trace \<Rightarrow> exn option \<times> trace" where
  "build_vm_building env depth vm_id vm w =
     (let (status, w1) = partial_update env IAAS_vm vm_id (State BUILDING) w in
      if status \<noteq> 200 then (None, w1 @ [Metric ''vm_build_failure''])
      else (case api_read env depth IAAS_server (server_id vm) w1 of
              (Inl e, w2) \<Rightarrow> (Some e, w2)
            | (Inr None, w2) \<Rightarrow>
                (None, unresource env IAAS_vm ''vm_build_failure'' ''vm_build_failure'' (ident vm) w2)
            | (Inr (Some server), w2) \<Rightarrow> (None, build_vm_run env vm_id vm server w2)))"

definition build_vm :: "env \<Rightarrow> nat \<Rightarrow> int \<Rightarrow> trace \<Rightarrow> exn option \<times> trace" where
  "build_vm env depth vm_id w =
     (case api_read env depth IAAS_vm vm_id w of
        (Inl e, w1) \<Rightarrow> (Some e, w1)
      | (Inr None, w1) \<Rightarrow> (None, w1 @ [Metric ''vm_build_failure''])
      | (Inr (Some vm), w1) \<Rightarrow>
          if state vm \<noteq> REQUESTED then (None, w1)
          else (case api_read env depth IAAS_virtual_router (virtual_router_id vm) w1 of
                  (Inl e, w2) \<Rightarrow> (Some e, w2)
                | (Inr None, w2) \<Rightarrow> (Some KeyError, w2)
                | (Inr (Some vm_vr), w2) \<Rightarrow>
                    if state vm_vr = UNRESOURCED then
                      (None, unresource env IAAS_vm ''vm_build_failure'' ''vm_build_failure''
                               (ident vm) w2)
                    else if state vm_vr \<noteq> RUNNING then
                      (None, w2 @ [Apply_async Build IAAS_vm vm_id 10])
                    else build_vm_building env depth vm_id vm w2))"

subsection \<open>tasks/vm/scrub.py\<close>

definition scrub_vm_run :: "env \<Rightarrow> int \<Rightarrow> resource \<Rightarrow> resource \<Rightarrow> trace \<Rightarrow> trace" where
  "scrub_vm_run env vm_id vm server w =
     (let (success, w1) =
        (if type_name server = ''HyperV'' then run_driver env Windows Scrub IAAS_vm (ident vm) w
         else if type_name server = ''KVM'' then run_driver env Linux Scrub IAAS_vm (ident vm) w
         else if type_name server = ''Phantom'' then (True, w)
         else (False, w))
      in if success then
           snd (partial_update env IAAS_vm vm_id (State CLOSED) (w1 @ [Metric ''vm_scrub_success'']))
         else
           (let w2 = w1 @ [Metric ''vm_scrub_failure''];
                (status, w3) = partial_update env IAAS_vm vm_id (State UNRESOURCED) w2
            in w3 @ [Email ''vm_failure'' (ident vm)]))"

definition scrub_vm :: "env \<Rightarrow> nat \<Rightarrow> int \<Rightarrow> trace \<Rightarrow> exn option \<times> trace" where
  "scrub_vm env depth vm_id w =
     (let (response, w1) = read_call env IAAS_vm vm_id w in
      if status_code response = 404 then (None, w1)
      else if status_code response \<noteq> 200 then (None, w1)
      else (case content response of
              None \<Rightarrow> (Some KeyError, w1)
            | Some vm \<Rightarrow>
                if state vm \<noteq> SCRUB_QUEUE then (None, w1)
                else
                  (let (status, w2) = partial_update env IAAS_vm vm_id (State SCRUBBING) w1 in
                   case api_read env depth IAAS_server (server_id vm) w2 of
                     (Inl e, w3) \<Rightarrow> (Some e, w3)
                   | (Inr None, w3) \<Rightarrow> (None, w3)
                   | (Inr (Some server), w3) \<Rightarrow> (None, scrub_vm_run env vm_id vm server w3))))"

subsection \<open>tasks/vm/quiesce.py\<close>

definition quiesce_vm_run :: "env \<Rightarrow> int \<Rightarrow> resource \<Rightarrow> resource \<Rightarrow> trace \<Rightarrow> trace" where
  "quiesce_vm_run env vm_id vm server w =
     (let (success, send_mail, w1) =
        (if type_name server = ''HyperV'' then
           (let (s, w') = run_driver env Windows Quiesce IAAS_vm (ident vm) w in (s, True, w'))
         else if type_name server = ''KVM'' then
           (let (s, w') = run_driver env Linux Quiesce IAAS_vm (ident vm) w in (s, True, w'))
         else if type_name server = ''Phantom'' then (True, False, w)
         else (False, True, w))
      in if success then
           (let w2 = w1 @ [Metric ''vm_quiesce_success''] in
            if state vm = QUIESCE then snd (partial_update env IAAS_vm vm_id (State QUIESCED) w2)
            else if state vm = SCRUB then
              (let (status, w3) = partial_update env IAAS_vm vm_id (State SCRUB_QUEUE) w2 in
               if send_mail then w3 @ [Email ''delete_schedule_success'' (ident vm)] else w3)
            else w2)
         else unresource env IAAS_vm ''vm_quiesce_failure'' ''vm_failure'' (ident vm) w1)"

definition quiesce_vm :: "env \<Rightarrow> nat \<Rightarrow> int \<Rightarrow> trace \<Rightarrow> exn option \<times> trace" where
  "quiesce_vm env depth vm_id w =
     (case api_read env depth IAAS_vm vm_id w of
        (Inl e, w1) \<Rightarrow> (Some e, w1)
      | (Inr None, w1) \<Rightarrow> (None, w1 @ [Metric ''vm_quiesce_failure''])
      | (Inr (Some vm), w1) \<Rightarrow>
          if state vm \<notin> set [QUIESCE, SCRUB] then (None, w1)
          else
            (let (status, w2) =
               (if state vm = QUIESCE then partial_update env IAAS_vm vm_id (State QUIESCING) w1
                else partial_update env IAAS_vm vm_id (State SCRUB_PREP) w1)
             in if status \<noteq> 200 then (None, w2 @ [Metric ''vm_quiesce_failure''])
                else (case api_read env depth IAAS_server (server_id vm) w2 of
                        (Inl e, w3) \<Rightarrow> (Some e, w3)
                      | (Inr None, w3) \<Rightarrow>
                          (None, unresource env IAAS_vm ''vm_quiesce_failure'' ''vm_failure''
                                   (ident vm) w3)
                      | (Inr (Some server), w3) \<Rightarrow>
                          (None, quiesce_vm_run env vm_id vm server w3))))"

subsection \<open>tasks/vm/restart.py\<close>

definition restart_vm_run :: "env \<Rightarrow> int \<Rightarrow> resource \<Rightarrow> resource \<Rightarrow> trace \<Rightarrow> trace" where
  "restart_vm_run env vm_id vm server w =
     (let (success, w1) =
        (if type_name server = ''HyperV'' then run_driver env Windows Restart IAAS_vm (ident vm) w
         else if type_name server = ''KVM'' then run_driver env Linux Restart IAAS_vm (ident vm) w
         else if type_name server = ''Phantom'' then (True, w)
         else (False, w))
      in if success then
           snd (partial_update env IAAS_vm vm_id (State RUNNING) (w1 @ [Metric ''vm_restart_success'']))
         else unresource env IAAS_vm ''vm_restart_failure'' ''vm_failure'' (ident vm) w1)"

definition restart_vm :: "env \<Rightarrow> nat \<Rightarrow> int \<Rightarrow> trace \<Rightarrow> exn option \<times> trace" where
  "restart_vm env depth vm_id w =
     (case api_read env depth IAAS_vm vm_id w of
        (Inl e, w1) \<Rightarrow> (Some e, w1)
      | (Inr None, w1) \<Rightarrow> (None, w1 @ [Metric ''vm_restart_failure''])
      | (Inr (Some vm), w1) \<Rightarrow>
          if state vm \<noteq> RESTART then (None, w1)
          else
            (let (status, w2) = partial_update env IAAS_vm vm_id (State RESTARTING) w1 in
             if status \<noteq> 200 then (None, w2 @ [Metric ''vm_restart_failure''])
             else (case api_read env depth IAAS_server (server_id vm) w2 of
                     (Inl e, w3) \<Rightarrow> (Some e, w3)
                   | (Inr None, w3) \<Rightarrow>
                       (None, unresource env IAAS_vm ''vm_restart_failure'' ''vm_failure''
                                (ident vm) w3)
                   | (Inr (Some server), w3) \<Rightarrow>
                       (None, restart_vm_run env vm_id vm server w3))))"

subsection \<open>tasks/backup/ and tasks/snapshot/\<close>

text \<open>
  The three snapshot modules are the three backup modules with the word backup
  replaced by snapshot, but for the final update of a build, to which a backup adds its
  \<open>time_valid\<close>. \<open>c\<close> is \<open>IAAS_backup\<close> or \<open>IAAS_snapshot\<close> and \<open>name\<close> the
  word. Neither has a branch for the server type Phantom.
\<close>

definition build_run ::
  "env \<Rightarrow> client \<Rightarrow> string \<Rightarrow> data \<Rightarrow> int \<Rightarrow> resource \<Rightarrow> resource \<Rightarrow> trace \<Rightarrow> trace" where
  "build_run env c name running pk r server w =
     (let (success, w1) =
        (if type_name server = ''HyperV'' then run_driver env Windows Build c (ident r) w
         else if type_name server = ''KVM'' then run_driver env Linux Build c (ident r) w
         else (False, w))
      in if success then snd (partial_update env c pk running w1)
         else unresource env c (name @ ''_build_failure'') (name @ ''_build_failure'') (ident r) w1)"

definition build ::
  "env \<Rightarrow> client \<Rightarrow> string \<Rightarrow> data \<Rightarrow> nat \<Rightarrow> int \<Rightarrow> trace \<Rightarrow> exn option \<times> trace" where
  "build env c name running depth pk w =
     (case api_read env depth c pk w of
        (Inl e, w1) \<Rightarrow> (Some e, w1)
      | (Inr None, w1) \<Rightarrow> (None, w1 @ [Metric (name @ ''_build_failure'')])
      | (Inr (Some r), w1) \<Rightarrow>
          if state r \<noteq> REQUESTED then (None, w1)
          else
            (let (status, w2) = partial_update env c pk (State BUILDING) w1 in
             if status \<noteq> 200 then (None, w2 @ [Metric (name @ ''_build_failure'')])
             else (case api_read env depth IAAS_server (server_id r) w2 of
                     (Inl e, w3) \<Rightarrow> (Some e, w3)
                   | (Inr None, w3) \<Rightarrow>
                       (None, unresource env c (name @ ''_build_failure'')
                                (name @ ''_build_failure'') (ident r) w3)
                   | (Inr (Some server), w3) \<Rightarrow>
                       (None, build_run env c name running pk r server w3))))"

definition build_backup :: "env \<Rightarrow> nat \<Rightarrow> int \<Rightarrow> trace \<Rightarrow> exn option \<times> trace" where
  "build_backup env = build env IAAS_backup ''backup'' (State_time_valid RUNNING)"

definition build_snapshot :: "env \<Rightarrow> nat \<Rightarrow> int \<Rightarrow> trace \<Rightarrow> exn option \<times> trace" where
  "build_snapshot env = build env IAAS_snapshot ''snapshot'' (State RUNNING)"

text \<open>
  The scrub of a backup or snapshot expects the state \<open>SCRUB\<close>. When the update to
  \<open>SCRUBBING\<close> is refused it sends a metric and goes on.
\<close>

definition scrub_run ::
  "env \<Rightarrow> client \<Rightarrow> string \<Rightarrow> int \<Rightarrow> resource \<Rightarrow> resource \<Rightarrow> trace \<Rightarrow> trace" where
  "scrub_run env c name pk r server w =
     (let (success, w1) =
        (if type_name server = ''HyperV'' then run_driver env Windows Scrub c (ident r) w
         else if type_name server = ''KVM'' then run_driver env Linux Scrub c (ident r) w
         else (False, w))
      in if success then
           snd (partial_update env c pk (State CLOSED) (w1 @ [Metric (name @ ''_scrub_success'')]))
         else unresource env c (name @ ''_scrub_failure'') (name @ ''_failure'') (ident r) w1)"

definition scrub ::
  "env \<Rightarrow> client \<Rightarrow> string \<Rightarrow> nat \<Rightarrow> int \<Rightarrow> trace \<Rightarrow> exn option \<times> trace" where
  "scrub env c name depth pk w =
     (let (response, w1) = read_call env c pk w in
      if status_code response = 404 then (None, w1)
      else if status_code response \<noteq> 200 then (None, w1)
      else (case content response of
              None \<Rightarrow> (Some KeyError, w1)
            | Some r \<Rightarrow>
                if state r \<noteq> SCRUB then (None, w1)
                else
                  (let (status, w2) = partial_update env c pk (State SCRUBBING) w1;
                       w3 = (if status \<noteq> 200 then w2 @ [Metric (name @ ''_update_failure'')] else w2)
                   in case api_read env depth IAAS_server (server_id r) w3 of
                        (Inl e, w4) \<Rightarrow> (Some e, w4)
                      | (Inr None, w4) \<Rightarrow> (None, w4)
                      | (Inr (Some server), w4) \<Rightarrow> (None, scrub_run env c name pk r server w4))))"

definition scrub_backup :: "env \<Rightarrow> nat \<Rightarrow> int \<Rightarrow> trace \<Rightarrow> exn option \<times> trace" where
  "scrub_backup env = scrub env IAAS_backup ''backup''"

definition scrub_snapshot :: "env \<Rightarrow> nat \<Rightarrow> int \<Rightarrow> trace \<Rightarrow> exn option \<times> trace" where
  "scrub_snapshot env = scrub env IAAS_snapshot ''snapshot''"

text \<open>The update of a backup or snapshot expects \<open>RUNNING_UPDATE\<close> only.\<close>

definition update_run ::
  "env \<Rightarrow> client \<Rightarrow> string \<Rightarrow> int \<Rightarrow> resource \<Rightarrow> resource \<Rightarrow> trace \<Rightarrow> trace" where
  "update_run env c name pk r server w =
     (let (success, w1) =
        (if type_name server = ''HyperV'' then run_driver env Windows Update c (ident r) w
         else if type_name server = ''KVM'' then run_driver env Linux Update c (ident r) w
         else (False, w))
      in if success then
           (let (status, w2) = partial_update env c pk (State RUNNING) w1 in
            if status \<noteq> 200 then w2 @ [Metric (name @ ''_update_failure'')]
            else w2 @ [Metric (name @ ''_update_success'')])
         else unresource env c (name @ ''_update_failure'') (name @ ''_failure'') (ident r) w1)"

definition update ::
  "env \<Rightarrow> client \<Rightarrow> string \<Rightarrow> nat \<Rightarrow> int \<Rightarrow> trace \<Rightarrow> exn option \<times> trace" where
  "update env c name depth pk w =
     (case api_read env depth c pk w of
        (Inl e, w1) \<Rightarrow> (Some e, w1)
      | (Inr None, w1) \<Rightarrow> (None, w1 @ [Metric (name @ ''_update_failure'')])
      | (Inr (Some r), w1) \<Rightarrow>
          if state r \<noteq> RUNNING_UPDATE then (None, w1)
          else
            (let (status, w2) = partial_update env c pk (State RUNNING_UPDATING) w1 in
             if status \<noteq> 200 then (None, w2 @ [Metric (name @ ''_update_failure'')])
             else (case api_read env depth IAAS_server (server_id r) w2 of
                     (Inl e, w3) \<Rightarrow> (Some e, w3)
                   | (Inr None, w3) \<Rightarrow> (None, w3)
                   | (Inr (Some server), w3) \<Rightarrow>
                       (None, update_run env c name pk r server w3))))"

definition update_backup :: "env \<Rightarrow> nat \<Rightarrow> int \<Rightarrow> trace \<Rightarrow> exn option \<times> trace" where
  "update_backup env = update env IAAS_backup ''backup''"

definition update_snapshot :: "env \<Rightarrow> nat \<Rightarrow> int \<Rightarrow> trace \<Rightarrow> exn option \<times> trace" where
  "update_snapshot env = update env IAAS_snapshot ''snapshot''"

subsection \<open>tasks/virtual\_router/\<close>

text \<open>
  After a successful build or update: for each VPN with \<open>send_email\<close> set, the success
  email and then, unless the notifier raised, the reset of \<open>send_email\<close>.
\<close>

fun vpn_emails :: "env \<Rightarrow> string \<Rightarrow> vpn list \<Rightarrow> trace \<Rightarrow> trace" where
  "vpn_emails env email [] w = w"
| "vpn_emails env email (v # vs) w =
     (if send_email v then
        (let w1 = w @ [Email email (vpn_id v)];
             w2 = (if vpn_email_ok env (vpn_id v)
                   then snd (partial_update env IAAS_vpn (vpn_id v) (Send_email False) w1)
                   else w1)
         in vpn_emails env email vs w2)
      else vpn_emails env email vs w)"

text \<open>The failure branch that the router workers write inline.\<close>

definition virtual_router_failed :: "env \<Rightarrow> string \<Rightarrow> int \<Rightarrow> trace \<Rightarrow> trace" where
  "virtual_router_failed env name pk w =
     unresource env IAAS_virtual_router (''virtual_router_'' @ name @ ''_failure'')
       ''virtual_router_failure'' pk w"

definition build_virtual_router :: "env \<Rightarrow> nat \<Rightarrow> int \<Rightarrow> trace \<Rightarrow> exn option \<times> trace" where
  "build_virtual_router env depth pk w =
     (case api_read env depth IAAS_virtual_router pk w of
        (Inl e, w1) \<Rightarrow> (Some e, w1)
      | (Inr None, w1) \<Rightarrow> (None, w1 @ [Metric ''virtual_router_build_failure''])
      | (Inr (Some virtual_router), w1) \<Rightarrow>
          if state virtual_router \<noteq> REQUESTED then (None, w1)
          else
            (let (status, w2) = partial_update env IAAS_virtual_router pk (State BUILDING) w1 in
             if status \<noteq> 200 then (None, w2 @ [Metric ''virtual_router_build_failure''])
             else
               (let (success, w3) = run_driver env PodNet Build IAAS_virtual_router pk w2 in
                if success then
                  (let w4 = w3 @ [Metric ''virtual_router_build_success''];
                       (status', w5) = partial_update env IAAS_virtual_router pk (State RUNNING) w4
                   in (None, vpn_emails env ''vpn_build_success'' (vpns_after env pk) w5))
                else (None, virtual_router_failed env ''build'' pk w3))))"

definition update_virtual_router :: "env \<Rightarrow> nat \<Rightarrow> int \<Rightarrow> trace \<Rightarrow> exn option \<times> trace" where
  "update_virtual_router env depth pk w =
     (case api_read env depth IAAS_virtual_router pk w of
        (Inl e, w1) \<Rightarrow> (Some e, w1)
      | (Inr None, w1) \<Rightarrow> (None, w1 @ [Metric ''virtual_router_update_failure''])
      | (Inr (Some virtual_router), w1) \<Rightarrow>
          if state virtual_router \<notin> set [RUNNING_UPDATE, QUIESCED_UPDATE] then (None, w1)
          else
            (let progress_state =
                   (if state virtual_router = QUIESCED_UPDATE then QUIESCED_UPDATING
                    else RUNNING_UPDATING);
                 stable_state =
                   (if state virtual_router = QUIESCED_UPDATE then QUIESCED else RUNNING);
                 (status, w2) = partial_update env IAAS_virtual_router pk (State progress_state) w1
             in if status \<noteq> 200 then (None, w2 @ [Metric ''virtual_router_update_failure''])
                else
                  (let (success, w3) = run_driver env PodNet Update IAAS_virtual_router pk w2 in
                   if success then
                     (let w4 = w3 @ [Metric ''virtual_router_update_success''];
                          (status', w5) =
                            partial_update env IAAS_virtual_router pk (State stable_state) w4
                      in (None, vpn_emails env ''vpn_update_success'' (vpns_after env pk) w5))
                   else (None, virtual_router_failed env ''update'' pk w3))))"

definition quiesce_virtual_router :: "env \<Rightarrow> nat \<Rightarrow> int \<Rightarrow> trace \<Rightarrow> exn option \<times> trace" where
  "quiesce_virtual_router env depth pk w =
     (case api_read env depth IAAS_virtual_router pk w of
        (Inl e, w1) \<Rightarrow> (Some e, w1)
      | (Inr None, w1) \<Rightarrow> (None, w1 @ [Metric ''virtual_router_quiesce_failure''])
      | (Inr (Some virtual_router), w1) \<Rightarrow>
          if state virtual_router \<notin> set [QUIESCE, SCRUB] then (None, w1)
          else
            (let (status, w2) =
               (if state virtual_router = QUIESCE
                then partial_update env IAAS_virtual_router pk (State QUIESCING) w1
                else partial_update env IAAS_virtual_router pk (State SCRUB_PREP) w1)
             in if status \<noteq> 200 then (None, w2 @ [Metric ''virtual_router_quiesce_failure''])
                else
                  (let (success, w3) = run_driver env PodNet Quiesce IAAS_virtual_router pk w2 in
                   if success then
                     (let w4 = w3 @ [Metric ''virtual_router_quiesce_success''] in
                      if state virtual_router = QUIESCE then
                        (None, snd (partial_update env IAAS_virtual_router pk (State QUIESCED) w4))
                      else if state virtual_router = SCRUB then
                        (None, snd (partial_update env IAAS_virtual_router pk (State SCRUB_QUEUE) w4))
                      else (None, w4))
                   else (None, virtual_router_failed env ''quiesce'' pk w3))))"

definition restart_virtual_router :: "env \<Rightarrow> nat \<Rightarrow> int \<Rightarrow> trace \<Rightarrow> exn option \<times> trace" where
  "restart_virtual_router env depth pk w =
     (case api_read env depth IAAS_virtual_router pk w of
        (Inl e, w1) \<Rightarrow> (Some e, w1)
      | (Inr None, w1) \<Rightarrow> (None, w1 @ [Metric ''virtual_router_restart_failure''])
      | (Inr (Some virtual_router), w1) \<Rightarrow>
          if state virtual_router \<noteq> RESTART then (None, w1)
          else
            (let (status, w2) = partial_update env IAAS_virtual_router pk (State RESTARTING) w1 in
             if status \<noteq> 200 then (None, w2 @ [Metric ''virtual_router_restart_failure''])
             else
               (let (success, w3) = run_driver env PodNet Restart IAAS_virtual_router pk w2 in
                if success then
                  (None, snd (partial_update env IAAS_virtual_router pk (State RUNNING)
                                (w3 @ [Metric ''virtual_router_restart_success''])))
                else (None, virtual_router_failed env ''restart'' pk w3))))"

text \<open>
  The scrub of a router writes \<open>SCRUBBING\<close> without looking at the status returned,
  and only then lists the VMs of the project that are not \<open>CLOSED\<close>. The worker has one
  exit where \<open>api_list\<close> does not return.
\<close>

definition scrub_virtual_router ::
  "env \<Rightarrow> nat \<Rightarrow> int \<Rightarrow> trace \<Rightarrow> (exn option \<times> trace) option" where
  "scrub_virtual_router env depth pk w =
     (let (response, w1) = read_call env IAAS_virtual_router pk w in
      if status_code response = 404 then Some (None, w1)
      else if status_code response \<noteq> 200 then Some (None, w1)
      else (case content response of
              None \<Rightarrow> Some (Some KeyError, w1)
            | Some virtual_router \<Rightarrow>
                if state virtual_router \<noteq> SCRUB_QUEUE then Some (None, w1)
                else
                  (let (status, w2) =
                         partial_update env IAAS_virtual_router pk (State SCRUBBING) w1;
                       ps = [(''search[project_id]'', P_int (project_id virtual_router)),
                             (''exclude[state]'', P_state CLOSED)]
                   in case api_list env depth IAAS_vm ps w2 of
                        None \<Rightarrow> None
                      | Some (Inl e, w3) \<Rightarrow> Some (Some e, w3)
                      | Some (Inr vrf_vms, w3) \<Rightarrow>
                          if length vrf_vms > 0 then
                            Some (None, w3 @ [Apply_async Scrub IAAS_virtual_router pk 60])
                          else
                            (let (success, w4) =
                                   run_driver env PodNet Scrub IAAS_virtual_router pk w3 in
                             if success then
                               Some (None, snd (partial_update env IAAS_virtual_router pk
                                       (State CLOSED) (w4 @ [Metric ''virtual_router_scrub_success''])))
                             else
                               (let w5 = w4 @ [Metric ''virtual_router_scrub_failure''];
                                    (status', w6) = partial_update env IAAS_virtual_router pk
                                                      (State UNRESOURCED) w5
                                in Some (None, w6 @ [Email ''virtual_router_failure'' pk]))))))"

text \<open>
  \<open>_debug_logs\<close> runs the updater on a running router whose firewall rules log for
  debugging. It reads the router a second time after the driver; the test
  \<open>virtual_router is None\<close> there never holds, since \<open>api_read\<close> returns a dict.
\<close>

definition debug_logs :: "env \<Rightarrow> nat \<Rightarrow> int \<Rightarrow> trace \<Rightarrow> exn option \<times> trace" where
  "debug_logs env depth pk w =
     (case api_read env depth IAAS_virtual_router pk w of
        (Inl e, w1) \<Rightarrow> (Some e, w1)
      | (Inr None, w1) \<Rightarrow> (None, w1 @ [Metric ''virtual_router_update_failure''])
      | (Inr (Some virtual_router), w1) \<Rightarrow>
          if state virtual_router \<noteq> RUNNING then (None, w1)
          else if True \<notin> set (debug_logging virtual_router) then (None, w1)
          else
            (let (success, w2) = run_driver env PodNet Update IAAS_virtual_router pk w1 in
             if success then
               (case api_read env depth IAAS_virtual_router pk
                       (w2 @ [Metric ''virtual_router_update_success'']) of
                  (Inl e, w3) \<Rightarrow> (Some e, w3)
                | (Inr None, w3) \<Rightarrow> (Some KeyError, w3)
                | (Inr (Some virtual_router'), w3) \<Rightarrow>
                    if state virtual_router' = RUNNING
                    then (None, snd (partial_update env IAAS_virtual_router pk (Debug False) w3))
                    else (None, w3))
             else (None, w2 @ [Metric ''virtual_router_update_failure'',
                               Email ''virtual_router_failure'' pk])))"

section \<open>The polling loop (mainloop.py)\<close>

text \<open>
  The content of a \<open>run_robot\<close> response: the \<open>project_ids\<close> and the buckets of ids per
  kind and operation.
\<close>

record pending =
  project_ids :: "int list"
  buckets :: "(string \<times> string \<times> int list) list"

text \<open>
  \<open>run_robot_get\<close>. \<open>api n\<close> is the response to the request number \<open>n\<close> made to
  \<open>IAAS.run_robot.list\<close>, or \<open>None\<close> when the request raises; the function returns its
  result and the number of requests made so far. The whole body is inside
  \<open>try: ... except Exception: return None\<close>, which also catches the \<open>RecursionError\<close> of a
  nested call when no depth is left. The result of the nested call is not used.
\<close>

fun run_robot_get ::
  "(nat \<Rightarrow> pending response option) \<Rightarrow> nat \<Rightarrow> nat \<Rightarrow> pending option \<times> nat" where
  "run_robot_get api 0 n = (None, n)"
| "run_robot_get api (Suc depth) n =
     (case api n of
        None \<Rightarrow> (None, Suc n)
      | Some response \<Rightarrow>
          (let n1 = (if token_expired response then snd (run_robot_get api depth (Suc n))
                     else Suc n)
           in if status_code response \<noteq> 200 then (None, n1)
              else if length (project_ids (content response)) > 0
                   then (Some (content response), n1)
                   else (None, n1)))"

section \<open>Reading a trace\<close>

fun is_write :: "event \<Rightarrow> bool" where
  "is_write (Request (Partial_update c pk d)) = True"
| "is_write e = False"

fun is_remote :: "event \<Rightarrow> bool" where
  "is_remote (Remote p op c pk) = True"
| "is_remote e = False"

text \<open>The partial updates of a trace and its driver calls, in order.\<close>

definition writes :: "trace \<Rightarrow> event list" where
  "writes w = filter is_write w"

definition remotes :: "trace \<Rightarrow> event list" where
  "remotes w = filter is_remote w"

section \<open>The workers by name\<close>

text \<open>
  The tasks that the dispatcher enqueues, and \<open>debug_logs\<close>. A run starts on the empty
  trace. (The module tasks/vm/update.py, from which tasks/vm/\_\_init\_\_.py imports
  \<open>update_vm\<close>, is not among the source files, so there is no worker for it here.)
\<close>

datatype worker =
    Build_backup | Scrub_backup | Update_backup
  | Build_snapshot | Scrub_snapshot | Update_snapshot
  | Build_virtual_router | Debug_logs_virtual_router | Quiesce_virtual_router
  | Restart_virtual_router | Scrub_virtual_router | Update_virtual_router
  | Build_vm | Quiesce_vm | Restart_vm | Scrub_vm

fun run :: "env \<Rightarrow> nat \<Rightarrow> worker \<Rightarrow> int \<Rightarrow> (exn option \<times> trace) option" where
  "run env depth Build_backup pk = Some (build_backup env depth pk [])"
| "run env depth Scrub_backup pk = Some (scrub_backup env depth pk [])"
| "run env depth Update_backup pk = Some (update_backup env depth pk [])"
| "run env depth Build_snapshot pk = Some (build_snapshot env depth pk [])"
| "run env depth Scrub_snapshot pk = Some (scrub_snapshot env depth pk [])"
| "run env depth Update_snapshot pk = Some (update_snapshot env depth pk [])"
| "run env depth Build_virtual_router pk = Some (build_virtual_router env depth pk [])"
| "run env depth Debug_logs_virtual_router pk = Some (debug_logs env depth pk [])"
| "run env depth Quiesce_virtual_router pk = Some (quiesce_virtual_router env depth pk [])"
| "run env depth Restart_virtual_router pk = Some (restart_virtual_router env depth pk [])"
| "run env depth Scrub_virtual_router pk = scrub_virtual_router env depth pk []"
| "run env depth Update_virtual_router pk = Some (update_virtual_router env depth pk [])"
| "run env depth Build_vm pk = Some (build_vm env depth pk [])"
| "run env depth Quiesce_vm pk = Some (quiesce_vm env depth pk [])"
| "run env depth Restart_vm pk = Some (restart_vm env depth pk [])"
| "run env depth Scrub_vm pk = Some (scrub_vm env depth pk [])"

text \<open>The client through which a worker reads and writes its resource.\<close>

fun client_of :: "worker \<Rightarrow> client" where
  "client_of Build_backup = IAAS_backup"
| "client_of Scrub_backup = IAAS_backup"
| "client_of Update_backup = IAAS_backup"
| "client_of Build_snapshot = IAAS_snapshot"
| "client_of Scrub_snapshot = IAAS_snapshot"
| "client_of Update_snapshot = IAAS_snapshot"
| "client_of Build_vm = IAAS_vm"
| "client_of Quiesce_vm = IAAS_vm"
| "client_of Restart_vm = IAAS_vm"
| "client_of Scrub_vm = IAAS_vm"
| "client_of wk = IAAS_virtual_router"

text \<open>
  The states a worker expects, as the warning it logs when it cancels names them
  (``Expected state to be ...''). The scrub of a backup or snapshot expects \<open>SCRUB\<close>,
  the scrub of a VM or router \<open>SCRUB_QUEUE\<close>.
\<close>

fun trigger_states :: "worker \<Rightarrow> state list" where
  "trigger_states Build_backup = [REQUESTED]"
| "trigger_states Scrub_backup = [SCRUB]"
| "trigger_states Update_backup = [RUNNING_UPDATE]"
| "trigger_states Build_snapshot = [REQUESTED]"
| "trigger_states Scrub_snapshot = [SCRUB]"
| "trigger_states Update_snapshot = [RUNNING_UPDATE]"
| "trigger_states Build_virtual_router = [REQUESTED]"
| "trigger_states Debug_logs_virtual_router = [RUNNING]"
| "trigger_states Quiesce_virtual_router = [QUIESCE, SCRUB]"
| "trigger_states Restart_virtual_router = [RESTART]"
| "trigger_states Scrub_virtual_router = [SCRUB_QUEUE]"
| "trigger_states Update_virtual_router = [RUNNING_UPDATE, QUIESCED_UPDATE]"
| "trigger_states Build_vm = [REQUESTED]"
| "trigger_states Quiesce_vm = [QUIESCE, SCRUB]"
| "trigger_states Restart_vm = [RESTART]"
| "trigger_states Scrub_vm = [SCRUB_QUEUE]"

text \<open>
  The resource a worker reads at its start, if it gets one: the scrub workers call
  \<open>client.read\<close> themselves and take the content of a 200 response, the others take
  what \<open>api_read\<close> returns.
\<close>

fun reads_directly :: "worker \<Rightarrow> bool" where
  "reads_directly Scrub_backup = True"
| "reads_directly Scrub_snapshot = True"
| "reads_directly Scrub_virtual_router = True"
| "reads_directly Scrub_vm = True"
| "reads_directly wk = False"

definition first_read :: "env \<Rightarrow> nat \<Rightarrow> worker \<Rightarrow> int \<Rightarrow> resource option" where
  "first_read env depth wk pk =
     (if reads_directly wk then
        (let response = fst (read_call env (client_of wk) pk []) in
         if status_code response = 200 then content response else None)
      else (case fst (api_read env depth (client_of wk) pk []) of
              Inl e \<Rightarrow> None
            | Inr r \<Rightarrow> r))"

section \<open>The pages of a list request\<close>

text \<open>
  For a call of \<open>api_list\<close> that starts at trace \<open>w\<close> and whose first response is not
  token-expired: \<open>page_at j\<close> is the response to its request for page \<open>j\<close>, which is
  the request number \<open>j\<close> it makes; \<open>records_upto k\<close> are the records of the pages 0 to
  \<open>k\<close> in order, and \<open>requests_upto k\<close> the requests for the pages 0 to \<open>k\<close>, one
  each.
\<close>

definition page_at :: "env \<Rightarrow> client \<Rightarrow> params \<Rightarrow> trace \<Rightarrow> nat \<Rightarrow> resource list list_response" where
  "page_at env c ps w j = list_response env (length w + j) c ps j"

definition records_upto :: "env \<Rightarrow> client \<Rightarrow> params \<Rightarrow> trace \<Rightarrow> nat \<Rightarrow> resource list" where
  "records_upto env c ps w k = concat (map (\<lambda>j. content (page_at env c ps w j)) [0..<Suc k])"

definition requests_upto :: "client \<Rightarrow> params \<Rightarrow> nat \<Rightarrow> trace" where
  "requests_upto c ps k = map (\<lambda>j. Request (List_page c ps j)) [0..<Suc k]"

section \<open>A region to run the workers in\<close>

text \<open>
  Concrete inputs: a VM, a router and a server as the API returns them, and a region in
  which every request succeeds, every driver call succeeds, and no VM is listed. The
  variations refuse one partial update with status 500, make the server unreadable, or
  list VMs that are not closed.
\<close>

definition ok :: "'a \<Rightarrow> 'a response" where
  "ok x = \<lparr>status_code = 200, detail = [], content = x\<rparr>"

definition failed :: "int \<Rightarrow> 'a \<Rightarrow> 'a response" where
  "failed code x = \<lparr>status_code = code, detail = ''error'', content = x\<rparr>"

definition expired :: "'a \<Rightarrow> 'a response" where
  "expired x =
     \<lparr>status_code = 401, detail = ''JWT token is expired. Please login again.'', content = x\<rparr>"

definition page :: "resource list \<Rightarrow> int \<Rightarrow> resource list list_response" where
  "page rs n = \<lparr>status_code = 200, detail = [], content = rs, total_records = n\<rparr>"

definition a_vm :: "int \<Rightarrow> state \<Rightarrow> resource" where
  "a_vm pk s = \<lparr>ident = pk, state = s, project_id = 5, virtual_router_id = 9,
               server_id = 3, type_name = [], debug_logging = []\<rparr>"

definition a_backup :: "int \<Rightarrow> state \<Rightarrow> resource" where
  "a_backup pk s = \<lparr>ident = pk, state = s, project_id = 5, virtual_router_id = 9,
                   server_id = 3, type_name = [], debug_logging = []\<rparr>"

definition a_snapshot :: "int \<Rightarrow> state \<Rightarrow> resource" where
  "a_snapshot pk s = \<lparr>ident = pk, state = s, project_id = 5, virtual_router_id = 9,
                     server_id = 3, type_name = [], debug_logging = []\<rparr>"

definition a_router :: "int \<Rightarrow> state \<Rightarrow> resource" where
  "a_router pk s = \<lparr>ident = pk, state = s, project_id = 5, virtual_router_id = pk,
                   server_id = 0, type_name = [], debug_logging = []\<rparr>"

definition a_server :: "string \<Rightarrow> resource" where
  "a_server t = \<lparr>ident = 3, state = RUNNING, project_id = 0, virtual_router_id = 0,
                server_id = 3, type_name = t, debug_logging = []\<rparr>"

definition region :: "resource \<Rightarrow> resource \<Rightarrow> string \<Rightarrow> env" where
  "region r vr t =
     \<lparr>read_response = (\<lambda>n c pk. if c = IAAS_virtual_router then ok (Some vr)
                                 else if c = IAAS_server then ok (Some (a_server t))
                                 else ok (Some r)),
      list_response = (\<lambda>n c ps p. page [] 0),
      update_status = (\<lambda>n c pk d. 200),
      remote = (\<lambda>p op c pk. Some True),
      vpns_after = (\<lambda>pk. []),
      vpn_email_ok = (\<lambda>pk. True)\<rparr>"

definition refusing :: "data \<Rightarrow> env \<Rightarrow> env" where
  "refusing d env = env\<lparr>update_status := (\<lambda>n c pk d'. if d' = d then 500 else 200)\<rparr>"

definition server_unreadable :: "env \<Rightarrow> env" where
  "server_unreadable env =
     env\<lparr>read_response := (\<lambda>n c pk. if c = IAAS_server then failed 500 None
                                      else read_response env n c pk)\<rparr>"

definition router_unreadable :: "env \<Rightarrow> env" where
  "router_unreadable env =
     env\<lparr>read_response := (\<lambda>n c pk. if c = IAAS_virtual_router then failed 404 None
                                      else read_response env n c pk)\<rparr>"

definition listing :: "resource list \<Rightarrow> env \<Rightarrow> env" where
  "listing vms env = env\<lparr>list_response := (\<lambda>n c ps p. page vms (int (length vms)))\<rparr>"

text \<open>
  A list service that answers page \<open>p\<close> with the \<open>p\<close>-th of the given pages and the
  given \<open>total_records\<close>, and any further page with status 500.
\<close>

definition serving :: "resource list list \<Rightarrow> int \<Rightarrow> env \<Rightarrow> env" where
  "serving pages n env =
     env\<lparr>list_response := (\<lambda>i c ps p.
        if p < length pages then page (pages ! p) n
        else \<lparr>status_code = 500, detail = ''error'', content = [], total_records = 0\<rparr>)\<rparr>"

text \<open>
  A \<open>run_robot\<close> service whose first answer is 401 with the token-expired detail and
  whose later answers are 200 with the given content.
\<close>

definition expired_then :: "pending \<Rightarrow> nat \<Rightarrow> pending response option" where
  "expired_then p n =
     (if n = 0 then Some (expired \<lparr>project_ids = [], buckets = []\<rparr>) else Some (ok p))"

definition work_for_7 :: pending where
  "work_for_7 = \<lparr>project_ids = [7], buckets = [(''vms'', ''build'', [42])]\<rparr>"

section \<open>Results\<close>

subsection \<open>Unfolding and trace lemmas\<close>

lemma api_read_unfold:
  "0 < depth \<Longrightarrow> api_read env depth c pk w =
     (let (response, w1) = read_call env c pk w in
      if token_expired response then api_read env (depth - 1) c pk w1
      else if status_code response = 200 then (Inr (content response), w1)
      else (Inr None, w1))"
  by (cases depth) (simp_all split: prod.splits)

lemma api_list_unfold:
  "0 < depth \<Longrightarrow> api_list env depth c ps w =
     (let (response, w1) = list_call env c ps 0 w in
      if token_expired response then api_list env (depth - 1) c ps w1
      else if status_code response \<noteq> 200 then Some (Inr [], w1)
      else map_option (\<lambda>(objects, w2). (Inr objects, w2))
             (fetch_pages env c ps (total_records response) 0 (content response) w1))"
  by (cases depth) (simp_all split: prod.splits)

lemma run_robot_get_unfold:
  "0 < depth \<Longrightarrow> run_robot_get api depth n =
     (case api n of
        None \<Rightarrow> (None, Suc n)
      | Some response \<Rightarrow>
          (let n1 = (if token_expired response then snd (run_robot_get api (depth - 1) (Suc n))
                     else Suc n)
           in if status_code response \<noteq> 200 then (None, n1)
              else if length (project_ids (content response)) > 0
                   then (Some (content response), n1)
                   else (None, n1)))"
  by (cases depth) (simp_all split: option.splits)

lemmas region_defs = region_def ok_def failed_def expired_def page_def a_vm_def a_backup_def a_snapshot_def a_router_def
  a_server_def refusing_def server_unreadable_def router_unreadable_def listing_def

lemmas call_defs = read_call_def list_call_def partial_update_def run_driver_def
  token_expired_def unresource_def

lemma writes_simps [simp]:
  "writes [] = []"
  "writes (w @ v) = writes w @ writes v"
  "writes (Request (Partial_update c pk d) # w) = Request (Partial_update c pk d) # writes w"
  "writes (Request (Read c pk) # w) = writes w"
  "writes (Request (List_page c ps p) # w) = writes w"
  "writes (Remote pl op c pk # w) = writes w"
  "writes (Apply_async op c pk n # w) = writes w"
  "writes (Email s pk # w) = writes w"
  "writes (Metric s # w) = writes w"
  by (simp_all add: writes_def)

lemma remotes_simps [simp]:
  "remotes [] = []"
  "remotes (w @ v) = remotes w @ remotes v"
  "remotes (Request q # w) = remotes w"
  "remotes (Remote pl op c pk # w) = Remote pl op c pk # remotes w"
  "remotes (Apply_async op c pk n # w) = remotes w"
  "remotes (Email s pk # w) = remotes w"
  "remotes (Metric s # w) = remotes w"
  by (simp_all add: remotes_def)

text \<open>\<open>api_read\<close> adds read requests for its object to the trace and nothing else.\<close>

lemma api_read_trace:
  "api_read env depth c pk w = (r, w') \<Longrightarrow> \<exists>k. w' = w @ replicate k (Request (Read c pk))"
proof (induction depth arbitrary: w)
  case 0
  then show ?case by simp
next
  case (Suc depth)
  show ?case
  proof (cases "token_expired (read_response env (length w) c pk)")
    case True
    with Suc.prems have "api_read env depth c pk (w @ [Request (Read c pk)]) = (r, w')"
      by (simp add: read_call_def)
    from Suc.IH[OF this] obtain k where
      "w' = (w @ [Request (Read c pk)]) @ replicate k (Request (Read c pk))" by blast
    then have "w' = w @ replicate (Suc k) (Request (Read c pk))" by simp
    then show ?thesis by blast
  next
    case False
    with Suc.prems have "w' = w @ replicate 1 (Request (Read c pk))"
      by (auto simp add: read_call_def split: if_splits)
    then show ?thesis by blast
  qed
qed

lemma writes_api_read: "api_read env depth c pk w = (r, w') \<Longrightarrow> writes w' = writes w"
  by (drule api_read_trace) (auto simp: writes_def)

lemma remotes_api_read: "api_read env depth c pk w = (r, w') \<Longrightarrow> remotes w' = remotes w"
  by (drule api_read_trace) (auto simp: remotes_def)

lemma set_api_read:
  "api_read env depth c pk w = (r, w') \<Longrightarrow> set w' \<subseteq> insert (Request (Read c pk)) (set w)"
  by (drule api_read_trace) auto

lemma api_read_reads_first:
  "0 < depth \<Longrightarrow> \<exists>rest. snd (api_read env depth c pk w) = w @ Request (Read c pk) # rest"
proof -
  assume "0 < depth"
  then obtain d where d: "depth = Suc d" by (cases depth) auto
  obtain r w' where r: "api_read env d c pk (w @ [Request (Read c pk)]) = (r, w')"
    by (cases "api_read env d c pk (w @ [Request (Read c pk)])")
  from api_read_trace[OF r] obtain k where
    "w' = w @ Request (Read c pk) # replicate k (Request (Read c pk))"
    by auto
  with r d show ?thesis by (auto simp add: read_call_def)
qed

text \<open>The later parts of \<open>_build_vm\<close> only add to the trace they are given.\<close>

lemma build_vm_run_extends: "\<exists>rest. build_vm_run env vm_id vm server w = w @ rest"
  by (auto simp add: build_vm_run_def run_driver_def partial_update_def unresource_def Let_def
      split: option.splits)

lemma build_vm_building_writes_first:
  "\<exists>rest. snd (build_vm_building env depth vm_id vm w) =
      w @ Request (Partial_update IAAS_vm vm_id (State BUILDING)) # rest"
proof -
  let ?w1 = "w @ [Request (Partial_update IAAS_vm vm_id (State BUILDING))]"
  obtain r w3 where r: "api_read env depth IAAS_server (server_id vm) ?w1 = (r, w3)"
    by (cases "api_read env depth IAAS_server (server_id vm) ?w1")
  from api_read_trace[OF r] obtain k where
    w3: "w3 = ?w1 @ replicate k (Request (Read IAAS_server (server_id vm)))" by blast
  show ?thesis
  proof (cases "update_status env (length w) IAAS_vm vm_id (State BUILDING) = 200")
    case False
    then show ?thesis by (simp add: build_vm_building_def partial_update_def)
  next
    case True
    show ?thesis
    proof (cases r)
      case (Inl e)
      with True r w3 show ?thesis by (simp add: build_vm_building_def partial_update_def)
    next
      case (Inr x)
      show ?thesis
      proof (cases x)
        case None
        with Inr True r w3 show ?thesis
          by (simp add: build_vm_building_def partial_update_def unresource_def)
      next
        case (Some server)
        obtain rest where "build_vm_run env vm_id vm server w3 = w3 @ rest"
          using build_vm_run_extends by blast
        with Some Inr True r w3 show ?thesis
          by (simp add: build_vm_building_def partial_update_def)
      qed
    qed
  qed
qed

lemma build_vm_building_proceeds:
  assumes "0 < depth" "update_status env (length w) IAAS_vm vm_id (State BUILDING) = 200"
  shows "\<exists>rest. snd (build_vm_building env depth vm_id vm w) =
      w @ Request (Partial_update IAAS_vm vm_id (State BUILDING)) #
          Request (Read IAAS_server (server_id vm)) # rest"
proof -
  let ?w1 = "w @ [Request (Partial_update IAAS_vm vm_id (State BUILDING))]"
  obtain r w3 where r: "api_read env depth IAAS_server (server_id vm) ?w1 = (r, w3)"
    by (cases "api_read env depth IAAS_server (server_id vm) ?w1")
  from api_read_reads_first[OF assms(1), of env IAAS_server "server_id vm" ?w1] r
  obtain rest0 where w3: "w3 = ?w1 @ Request (Read IAAS_server (server_id vm)) # rest0" by auto
  show ?thesis
  proof (cases r)
    case (Inl e)
    with assms(2) r w3 show ?thesis by (simp add: build_vm_building_def partial_update_def)
  next
    case (Inr x)
    show ?thesis
    proof (cases x)
      case None
      with Inr assms(2) r w3 show ?thesis
        by (simp add: build_vm_building_def partial_update_def unresource_def)
    next
      case (Some server)
      obtain rest where "build_vm_run env vm_id vm server w3 = w3 @ rest"
        using build_vm_run_extends by blast
      with Some Inr assms(2) r w3 show ?thesis
        by (simp add: build_vm_building_def partial_update_def)
    qed
  qed
qed

text \<open>A worker that reads its resource through \<open>api_read\<close> and gets one.\<close>

lemma guard_api_read:
  assumes "(case fst (api_read env depth c pk []) of Inl e \<Rightarrow> None | Inr r \<Rightarrow> r) = Some r"
  obtains w1 where "api_read env depth c pk [] = (Inr (Some r), w1)"
    "set w1 \<subseteq> {Request (Read c pk)}"
proof -
  obtain x w1 where x: "api_read env depth c pk [] = (x, w1)"
    by (cases "api_read env depth c pk []")
  with assms have "x = Inr (Some r)" by (simp split: sum.splits)
  moreover from set_api_read[OF x] have "set w1 \<subseteq> {Request (Read c pk)}" by simp
  ultimately show ?thesis using that x by blast
qed

lemma only_reads:
  "set tr \<subseteq> {Request (Read c pk)} \<Longrightarrow> writes tr = [] \<and> remotes tr = []"
  by (auto simp: writes_def remotes_def filter_empty_conv)

text \<open>The loop of \<open>api_list\<close>, page by page.\<close>

lemma records_upto_Suc:
  "records_upto env c ps w (Suc k) = records_upto env c ps w k @ content (page_at env c ps w (Suc k))"
  by (simp add: records_upto_def)

lemma requests_upto_Suc:
  "requests_upto c ps (Suc k) = requests_upto c ps k @ [Request (List_page c ps (Suc k))]"
  by (simp add: requests_upto_def)

lemma length_requests_upto [simp]: "length (requests_upto c ps k) = Suc k"
  by (simp add: requests_upto_def)

lemma fetch_pages_step:
  assumes "objects = records_upto env c ps w p" "w1 = w @ requests_upto c ps p"
    "int (length objects) < total_n" "status_code (page_at env c ps w (Suc p)) = 200"
  shows "fetch_pages env c ps total_n p objects w1 =
         fetch_pages env c ps total_n (Suc p) (records_upto env c ps w (Suc p))
           (w @ requests_upto c ps (Suc p))"
  using assms
  by (subst fetch_pages.simps) (simp add: list_call_def page_at_def records_upto_Suc requests_upto_Suc)

lemma fetch_pages_exit_normal:
  assumes "p \<le> k"
    "\<forall>j. p < j \<and> j \<le> k \<longrightarrow> status_code (page_at env c ps w j) = 200"
    "\<forall>j. p \<le> j \<and> j < k \<longrightarrow> int (length (records_upto env c ps w j)) < total_n"
    "total_n \<le> int (length (records_upto env c ps w k))"
  shows "fetch_pages env c ps total_n p (records_upto env c ps w p) (w @ requests_upto c ps p) =
         Some (records_upto env c ps w k, w @ requests_upto c ps k)"
  using assms
proof (induction "k - p" arbitrary: p)
  case 0
  then have "p = k" by simp
  with 0 show ?case by (subst fetch_pages.simps) simp
next
  case (Suc n)
  then have lt: "p < k" by simp
  with Suc.prems have "int (length (records_upto env c ps w p)) < total_n"
    "status_code (page_at env c ps w (Suc p)) = 200" by auto
  then have "fetch_pages env c ps total_n p (records_upto env c ps w p) (w @ requests_upto c ps p) =
        fetch_pages env c ps total_n (Suc p) (records_upto env c ps w (Suc p)) (w @ requests_upto c ps (Suc p))"
    by (intro fetch_pages_step) simp_all
  also have "\<dots> = Some (records_upto env c ps w k, w @ requests_upto c ps k)"
    using Suc.hyps(2) Suc.prems lt by (intro Suc.hyps(1)) auto
  finally show ?case .
qed

lemma fetch_pages_exit_error:
  assumes "p < k"
    "\<forall>j. p < j \<and> j < k \<longrightarrow> status_code (page_at env c ps w j) = 200"
    "\<forall>j. p \<le> j \<and> j < k \<longrightarrow> int (length (records_upto env c ps w j)) < total_n"
    "status_code (page_at env c ps w k) \<noteq> 200"
  shows "fetch_pages env c ps total_n p (records_upto env c ps w p) (w @ requests_upto c ps p) =
         Some (records_upto env c ps w (k - 1), w @ requests_upto c ps k)"
  using assms
proof (induction "k - Suc p" arbitrary: p)
  case 0
  then have k: "k = Suc p" by simp
  with 0 show ?case
    by (subst fetch_pages.simps) (simp add: list_call_def page_at_def requests_upto_Suc)
next
  case (Suc n)
  then have lt: "Suc p < k" by simp
  with Suc.prems have "int (length (records_upto env c ps w p)) < total_n"
    "status_code (page_at env c ps w (Suc p)) = 200" by auto
  then have "fetch_pages env c ps total_n p (records_upto env c ps w p) (w @ requests_upto c ps p) =
        fetch_pages env c ps total_n (Suc p) (records_upto env c ps w (Suc p)) (w @ requests_upto c ps (Suc p))"
    by (intro fetch_pages_step) simp_all
  also have "\<dots> = Some (records_upto env c ps w (k - 1), w @ requests_upto c ps k)"
    using Suc.hyps(2) Suc.prems lt by (intro Suc.hyps(1)) auto
  finally show ?case .
qed



lemma page_at_0: "list_call env c ps 0 w = (page_at env c ps w 0, w @ requests_upto c ps 0)"
  by (simp add: list_call_def page_at_def requests_upto_def)

lemma records_upto_0: "records_upto env c ps w 0 = content (page_at env c ps w 0)"
  by (simp add: records_upto_def)

lemma api_list_pages:
  assumes "0 < depth" "status_code (page_at env c ps w 0) = 200"
  shows "api_list env depth c ps w =
     map_option (\<lambda>(objects, w2). (Inr objects, w2))
       (fetch_pages env c ps (total_records (page_at env c ps w 0)) 0
          (records_upto env c ps w 0) (w @ requests_upto c ps 0))"
  using assms by (simp add: api_list_unfold page_at_0 records_upto_0 token_expired_def)


lemma fetch_pages_returns:
  assumes "fetch_pages env c ps total_n p objects w1 = Some y"
  shows "\<forall>w. objects = records_upto env c ps w p \<and> w1 = w @ requests_upto c ps p \<longrightarrow>
     (\<exists>k. p \<le> k \<and> snd y = w @ requests_upto c ps k \<and>
        (fst y = records_upto env c ps w k \<and> total_n \<le> int (length (fst y)) \<or>
         p < k \<and> status_code (page_at env c ps w k) \<noteq> 200 \<and>
         fst y = records_upto env c ps w (k - 1) \<and> int (length (fst y)) < total_n))"
proof (rule fetch_pages.raw_induct[where P = "\<lambda>env c ps total_n p objects w1 y.
     \<forall>w. objects = records_upto env c ps w p \<and> w1 = w @ requests_upto c ps p \<longrightarrow>
     (\<exists>k. p \<le> k \<and> snd y = w @ requests_upto c ps k \<and>
        (fst y = records_upto env c ps w k \<and> total_n \<le> int (length (fst y)) \<or>
         p < k \<and> status_code (page_at env c ps w k) \<noteq> 200 \<and>
         fst y = records_upto env c ps w (k - 1) \<and> int (length (fst y)) < total_n))",
     OF _ assms], goal_cases)
  case (1 f env c ps total_n page objects w1 y)
  show ?case
  proof (intro allI impI, elim conjE)
    fix w
    assume inv: "objects = records_upto env c ps w page" "w1 = w @ requests_upto c ps page"
    show "\<exists>k. page \<le> k \<and> snd y = w @ requests_upto c ps k \<and>
        (fst y = records_upto env c ps w k \<and> total_n \<le> int (length (fst y)) \<or>
         page < k \<and> status_code (page_at env c ps w k) \<noteq> 200 \<and>
         fst y = records_upto env c ps w (k - 1) \<and> int (length (fst y)) < total_n)"
    proof (cases "int (length objects) < total_n")
      case False
      with 1(2) inv have "y = (records_upto env c ps w page, w @ requests_upto c ps page)" by simp
      with False inv show ?thesis by (intro exI[of _ page]) simp
    next
      case True
      have resp: "list_call env c ps (page + 1) w1 =
          (page_at env c ps w (Suc page), w @ requests_upto c ps (Suc page))"
        using inv by (simp add: list_call_def page_at_def requests_upto_Suc)
      show ?thesis
      proof (cases "status_code (page_at env c ps w (Suc page)) = 200")
        case False
        with True 1(2) resp inv
        have "y = (records_upto env c ps w page, w @ requests_upto c ps (Suc page))" by simp
        with False True inv show ?thesis by (intro exI[of _ "Suc page"]) simp
      next
        case ok: True
        with True 1(2) resp
        have call: "f env c ps total_n (Suc page)
            (objects @ content (page_at env c ps w (Suc page))) (w @ requests_upto c ps (Suc page)) = Some y"
          by simp
        from 1(1)[OF call, rule_format, of w] inv
        obtain k where k: "Suc page \<le> k" "snd y = w @ requests_upto c ps k"
          "fst y = records_upto env c ps w k \<and> total_n \<le> int (length (fst y)) \<or>
           Suc page < k \<and> status_code (page_at env c ps w k) \<noteq> 200 \<and>
           fst y = records_upto env c ps w (k - 1) \<and> int (length (fst y)) < total_n"
          by (auto simp add: records_upto_Suc)
        then show ?thesis by (intro exI[of _ k]) auto
      qed
    qed
  qed
qed

subsection \<open>The claims\<close>

text \<open>
  C1. The claim: when the update from the trigger state to the in-progress state is
  not answered with 200, the worker stops before any remote execution and any further
  write, the VM scrub and the router scrub included. Both scrubs ignore the status: with
  the update to \<open>SCRUBBING\<close> refused with 500, the VM scrub goes on to run the Linux
  scrubber and to write \<open>CLOSED\<close>, and the router scrub goes on to run the PodNet
  scrubber and to write \<open>CLOSED\<close>.
\<close>

theorem C1_scrub_goes_on_after_refused_update:
  "update_status (refusing (State SCRUBBING) (region (a_vm 100 SCRUB_QUEUE) (a_router 9 SCRUB_QUEUE) ''KVM''))
      1 IAAS_vm 100 (State SCRUBBING) = 500 \<and>
   scrub_vm (refusing (State SCRUBBING) (region (a_vm 100 SCRUB_QUEUE) (a_router 9 SCRUB_QUEUE) ''KVM''))
      1000 100 [] =
     (None, [Request (Read IAAS_vm 100),
             Request (Partial_update IAAS_vm 100 (State SCRUBBING)),
             Request (Read IAAS_server 3),
             Remote Linux Scrub IAAS_vm 100,
             Metric ''vm_scrub_success'',
             Request (Partial_update IAAS_vm 100 (State CLOSED))]) \<and>
   scrub_virtual_router
      (refusing (State SCRUBBING) (region (a_vm 100 SCRUB_QUEUE) (a_router 9 SCRUB_QUEUE) ''KVM''))
      1000 9 [] =
     Some (None, [Request (Read IAAS_virtual_router 9),
             Request (Partial_update IAAS_virtual_router 9 (State SCRUBBING)),
             Request (List_page IAAS_vm
               [(''search[project_id]'', P_int 5), (''exclude[state]'', P_state CLOSED)] 0),
             Remote PodNet Scrub IAAS_virtual_router 9,
             Metric ''virtual_router_scrub_success'',
             Request (Partial_update IAAS_virtual_router 9 (State CLOSED))])"
  by (simp add: scrub_vm_def scrub_vm_run_def scrub_virtual_router_def region_defs call_defs
      api_read_unfold api_list_unfold fetch_pages.simps)

text \<open>
  C2. The claim: a router scrub that finds a VM of the project not \<open>CLOSED\<close> runs
  nothing remotely, schedules itself 60 seconds later and leaves the router in
  \<open>SCRUB_QUEUE\<close>. With router 9 in \<open>SCRUB_QUEUE\<close> and VM 42 of its project
  \<open>RUNNING\<close>, the worker has written \<open>SCRUBBING\<close> to the router before it lists
  the VMs; it then schedules itself and returns.
\<close>

theorem C2_router_scrub_writes_scrubbing_before_the_gate:
  "scrub_virtual_router
      (listing [a_vm 42 RUNNING] (region (a_vm 42 RUNNING) (a_router 9 SCRUB_QUEUE) ''KVM''))
      1000 9 [] =
     Some (None, [Request (Read IAAS_virtual_router 9),
             Request (Partial_update IAAS_virtual_router 9 (State SCRUBBING)),
             Request (List_page IAAS_vm
               [(''search[project_id]'', P_int 5), (''exclude[state]'', P_state CLOSED)] 0),
             Apply_async Scrub IAAS_virtual_router 9 60])"
  by (simp add: scrub_virtual_router_def region_defs call_defs api_list_unfold fetch_pages.simps)

text \<open>
  C3. The claim: every failing run ends with \<open>UNRESOURCED\<close> written, the VM scrub
  whose server cannot be read included. With VM 100 in \<open>SCRUB_QUEUE\<close> and its server
  answering 500, the VM scrub returns after the read of the server: the only state it has
  written is \<open>SCRUBBING\<close>.
\<close>

theorem C3_vm_scrub_server_unreadable_leaves_scrubbing:
  "scrub_vm (server_unreadable (region (a_vm 100 SCRUB_QUEUE) (a_router 9 RUNNING) ''KVM''))
      1000 100 [] =
     (None, [Request (Read IAAS_vm 100),
             Request (Partial_update IAAS_vm 100 (State SCRUBBING)),
             Request (Read IAAS_server 3)]) \<and>
   writes (snd (scrub_vm
      (server_unreadable (region (a_vm 100 SCRUB_QUEUE) (a_router 9 RUNNING) ''KVM'')) 1000 100 [])) =
     [Request (Partial_update IAAS_vm 100 (State SCRUBBING))]"
  by (simp add: scrub_vm_def region_defs call_defs api_read_unfold)

text \<open>
  C4. A worker that reads its resource and finds it in a state that is not one it
  expects returns normally, and its whole run consists of reads of that resource: no
  write to the API, no driver call, nothing scheduled, no email and no metric. This holds
  for each of the sixteen workers.
\<close>

theorem C4_wrong_state_is_a_no_op:
  assumes "first_read env depth wk pk = Some r" and "state r \<notin> set (trigger_states wk)"
  shows "\<exists>tr. run env depth wk pk = Some (None, tr) \<and>
              set tr \<subseteq> {Request (Read (client_of wk) pk)} \<and> writes tr = [] \<and> remotes tr = []"
proof -
  have "\<exists>tr. run env depth wk pk = Some (None, tr) \<and>
             set tr \<subseteq> {Request (Read (client_of wk) pk)}"
  proof (cases "reads_directly wk")
    case True
    then consider "wk = Scrub_backup" | "wk = Scrub_snapshot" | "wk = Scrub_virtual_router"
      | "wk = Scrub_vm"
      by (cases wk) simp_all
    then show ?thesis
      using assms
      by cases (auto simp add: first_read_def read_call_def scrub_backup_def scrub_snapshot_def
          scrub_def scrub_vm_def scrub_virtual_router_def split: if_splits)
  next
    case False
    with assms(1) have
      "(case fst (api_read env depth (client_of wk) pk []) of Inl e \<Rightarrow> None | Inr r \<Rightarrow> r) = Some r"
      by (simp add: first_read_def)
    then obtain w1 where w1: "api_read env depth (client_of wk) pk [] = (Inr (Some r), w1)"
      "set w1 \<subseteq> {Request (Read (client_of wk) pk)}"
      by (rule guard_api_read)
    from False w1 assms(2) show ?thesis
      by (cases wk) (simp_all add: build_backup_def build_snapshot_def build_def
          update_backup_def update_snapshot_def update_def build_virtual_router_def debug_logs_def
          quiesce_virtual_router_def restart_virtual_router_def update_virtual_router_def
          build_vm_def quiesce_vm_def restart_vm_def)
  qed
  then show ?thesis using only_reads by blast
qed

text \<open>
  A second dispatch of the build of VM 42, which is \<open>RUNNING\<close> by now, and of the
  scrub of router 9, which is \<open>SCRUBBING\<close> by now.
\<close>

theorem C4_wrong_state_is_a_no_op_witness:
  "(\<exists>tr. run (region (a_vm 42 RUNNING) (a_router 9 SCRUBBING) ''KVM'') 1000 Build_vm 42 =
            Some (None, tr) \<and>
         set tr \<subseteq> {Request (Read IAAS_vm 42)} \<and> writes tr = [] \<and> remotes tr = []) \<and>
   (\<exists>tr. run (region (a_vm 42 RUNNING) (a_router 9 SCRUBBING) ''KVM'') 1000 Scrub_virtual_router 9 =
            Some (None, tr) \<and>
         set tr \<subseteq> {Request (Read IAAS_virtual_router 9)} \<and> writes tr = [] \<and> remotes tr = [])"
proof -
  let ?env = "region (a_vm 42 RUNNING) (a_router 9 SCRUBBING) ''KVM''"
  have vm: "first_read ?env 1000 Build_vm 42 = Some (a_vm 42 RUNNING)"
    by (simp add: first_read_def region_defs call_defs api_read_unfold)
  have vm_state: "state (a_vm 42 RUNNING) \<notin> set (trigger_states Build_vm)"
    by (simp add: a_vm_def)
  have vr: "first_read ?env 1000 Scrub_virtual_router 9 = Some (a_router 9 SCRUBBING)"
    by (simp add: first_read_def region_defs call_defs)
  have vr_state: "state (a_router 9 SCRUBBING) \<notin> set (trigger_states Scrub_virtual_router)"
    by (simp add: a_router_def)
  from C4_wrong_state_is_a_no_op[OF vm vm_state] C4_wrong_state_is_a_no_op[OF vr vr_state]
  show ?thesis by simp
qed

text \<open>
  C5. A run of the VM build worker that has read the VM in state \<open>REQUESTED\<close> and
  then its project's router. \<open>w2\<close> is the trace after the two reads; it holds no write
  and no driver call. If the router is \<open>UNRESOURCED\<close>, the run ends with the failure
  metric, the write of \<open>UNRESOURCED\<close> to the VM and the failure email. If the router
  is in any other state but \<open>RUNNING\<close>, the run ends with the build scheduled again 10
  seconds later and nothing else. If the router is \<open>RUNNING\<close>, the next event is the
  write of \<open>BUILDING\<close>, and when that is answered with 200 the worker goes on to read
  the server. The write of \<open>BUILDING\<close> occurs in the run only if the router is
  \<open>RUNNING\<close>.
\<close>

theorem C5_vm_build_gated_on_router:
  assumes vm: "api_read env depth IAAS_vm vm_id [] = (Inr (Some vm), w1)"
    and req: "state vm = REQUESTED"
    and vr: "api_read env depth IAAS_virtual_router (virtual_router_id vm) w1 =
               (Inr (Some vm_vr), w2)"
  shows "(state vm_vr = UNRESOURCED \<longrightarrow>
            build_vm env depth vm_id [] =
              (None, w2 @ [Metric ''vm_build_failure'',
                           Request (Partial_update IAAS_vm (ident vm) (State UNRESOURCED)),
                           Email ''vm_build_failure'' (ident vm)])) \<and>
         (state vm_vr \<noteq> UNRESOURCED \<and> state vm_vr \<noteq> RUNNING \<longrightarrow>
            build_vm env depth vm_id [] = (None, w2 @ [Apply_async Build IAAS_vm vm_id 10])) \<and>
         (state vm_vr = RUNNING \<longrightarrow>
            (\<exists>rest. snd (build_vm env depth vm_id []) =
               w2 @ Request (Partial_update IAAS_vm vm_id (State BUILDING)) # rest)) \<and>
         (state vm_vr = RUNNING \<and> 0 < depth \<and>
          update_status env (length w2) IAAS_vm vm_id (State BUILDING) = 200 \<longrightarrow>
            (\<exists>rest. snd (build_vm env depth vm_id []) =
               w2 @ Request (Partial_update IAAS_vm vm_id (State BUILDING)) #
                    Request (Read IAAS_server (server_id vm)) # rest)) \<and>
         (Request (Partial_update IAAS_vm vm_id (State BUILDING))
            \<in> set (snd (build_vm env depth vm_id [])) \<longrightarrow> state vm_vr = RUNNING) \<and>
         writes w2 = [] \<and> remotes w2 = []"
proof -
  have w1: "writes w1 = []" "remotes w1 = []"
    using writes_api_read[OF vm] remotes_api_read[OF vm] by simp_all
  then have w2: "writes w2 = []" "remotes w2 = []"
    using writes_api_read[OF vr] remotes_api_read[OF vr] by simp_all
  have a: "state vm_vr = UNRESOURCED \<Longrightarrow> build_vm env depth vm_id [] =
              (None, w2 @ [Metric ''vm_build_failure'',
                           Request (Partial_update IAAS_vm (ident vm) (State UNRESOURCED)),
                           Email ''vm_build_failure'' (ident vm)])"
    using vm req vr by (simp add: build_vm_def unresource_def partial_update_def)
  have b: "state vm_vr \<noteq> UNRESOURCED \<Longrightarrow> state vm_vr \<noteq> RUNNING \<Longrightarrow>
            build_vm env depth vm_id [] = (None, w2 @ [Apply_async Build IAAS_vm vm_id 10])"
    using vm req vr by (simp add: build_vm_def)
  have run: "state vm_vr = RUNNING \<Longrightarrow>
            build_vm env depth vm_id [] = build_vm_building env depth vm_id vm w2"
    using vm req vr by (simp add: build_vm_def)
  have no_write: "Request (Partial_update IAAS_vm vm_id (State BUILDING)) \<notin> set w2"
    using set_api_read[OF vm] set_api_read[OF vr] by auto
  have d: "state vm_vr = RUNNING"
    if mem: "Request (Partial_update IAAS_vm vm_id (State BUILDING))
               \<in> set (snd (build_vm env depth vm_id []))"
  proof (rule ccontr)
    assume nr: "state vm_vr \<noteq> RUNNING"
    show False
    proof (cases "state vm_vr = UNRESOURCED")
      case True
      from a[OF True] mem no_write show False by simp
    next
      case False
      from b[OF False nr] mem no_write show False by simp
    qed
  qed
  have c: "state vm_vr = RUNNING \<Longrightarrow> \<exists>rest. snd (build_vm env depth vm_id []) =
               w2 @ Request (Partial_update IAAS_vm vm_id (State BUILDING)) # rest"
    using build_vm_building_writes_first[of env depth vm_id vm w2] by (simp only: run)
  have c': "state vm_vr = RUNNING \<Longrightarrow> 0 < depth \<Longrightarrow>
          update_status env (length w2) IAAS_vm vm_id (State BUILDING) = 200 \<Longrightarrow>
            \<exists>rest. snd (build_vm env depth vm_id []) =
               w2 @ Request (Partial_update IAAS_vm vm_id (State BUILDING)) #
                    Request (Read IAAS_server (server_id vm)) # rest"
    using build_vm_building_proceeds[of depth env w2 vm_id vm] by (simp only: run)
  from a b c c' d w2 show ?thesis by blast
qed

text \<open>
  The three cases at VM 42 in \<open>REQUESTED\<close> with router 9 \<open>UNRESOURCED\<close>, \<open>BUILDING\<close>
  and \<open>RUNNING\<close>.
\<close>

theorem C5_vm_build_gated_on_router_witness:
  "build_vm (region (a_vm 42 REQUESTED) (a_router 9 UNRESOURCED) ''KVM'') 1000 42 [] =
     (None, [Request (Read IAAS_vm 42), Request (Read IAAS_virtual_router 9),
             Metric ''vm_build_failure'',
             Request (Partial_update IAAS_vm 42 (State UNRESOURCED)),
             Email ''vm_build_failure'' 42]) \<and>
   build_vm (region (a_vm 42 REQUESTED) (a_router 9 BUILDING) ''KVM'') 1000 42 [] =
     (None, [Request (Read IAAS_vm 42), Request (Read IAAS_virtual_router 9),
             Apply_async Build IAAS_vm 42 10]) \<and>
   (\<exists>rest. snd (build_vm (region (a_vm 42 REQUESTED) (a_router 9 RUNNING) ''KVM'') 1000 42 []) =
      [Request (Read IAAS_vm 42), Request (Read IAAS_virtual_router 9)] @
      Request (Partial_update IAAS_vm 42 (State BUILDING)) #
      Request (Read IAAS_server 3) # rest)"
proof -
  let ?vm = "a_vm 42 REQUESTED"
  let ?w1 = "[Request (Read IAAS_vm 42)]"
  let ?w2 = "[Request (Read IAAS_vm 42), Request (Read IAAS_virtual_router 9)]"
  have vm: "api_read (region ?vm (a_router 9 s) ''KVM'') 1000 IAAS_vm 42 [] = (Inr (Some ?vm), ?w1)"
    for s by (simp add: region_defs call_defs api_read_unfold)
  have req: "state ?vm = REQUESTED" by (simp add: a_vm_def)
  have vr: "api_read (region ?vm (a_router 9 s) ''KVM'') 1000 IAAS_virtual_router
              (virtual_router_id ?vm) ?w1 = (Inr (Some (a_router 9 s)), ?w2)"
    for s by (simp add: region_defs call_defs api_read_unfold)
  have st: "state (a_router 9 s) = s" for s by (simp add: a_router_def)
  have up: "update_status (region ?vm (a_router 9 RUNNING) ''KVM'') (length ?w2) IAAS_vm 42
              (State BUILDING) = 200"
    by (simp add: region_def)
  have ids: "ident ?vm = 42" "server_id ?vm = 3" by (simp_all add: a_vm_def)
  from C5_vm_build_gated_on_router[OF vm req vr, of UNRESOURCED]
       C5_vm_build_gated_on_router[OF vm req vr, of BUILDING]
       C5_vm_build_gated_on_router[OF vm req vr, of RUNNING] up
  show ?thesis by (simp add: st ids)
qed

text \<open>
  C6. The claim: after a 401 token-expired response the call is made once more and
  the caller sees the result of that second call, \<open>run_robot_get\<close> included. With a
  first answer that is token-expired and a second answer 200 that carries work for
  project 7, \<open>run_robot_get\<close> makes both requests and returns \<open>None\<close>; started at the
  second answer it returns the work.
\<close>

theorem C6_run_robot_get_drops_the_retried_result:
  "run_robot_get (expired_then work_for_7) 1000 0 = (None, 2) \<and>
   run_robot_get (expired_then work_for_7) 1000 1 = (Some work_for_7, 2)"
  by (simp add: run_robot_get_unfold expired_then_def work_for_7_def expired_def ok_def
      token_expired_def)

text \<open>
  C7. A call of \<open>api_list\<close> whose first response has status 200; \<open>total_records\<close>
  is what that response reports. If the pages 0 to \<open>k\<close> all have status 200 and \<open>k\<close>
  is the first page with which the accumulated records reach \<open>total_records\<close>, the call
  returns the records of the pages 0 to \<open>k\<close> after one request for each of them. If
  the pages before page \<open>k > 0\<close> have status 200 and leave the accumulated records
  below \<open>total_records\<close>, and page \<open>k\<close> has another status, the call returns the
  records of the pages before \<open>k\<close>, and page \<open>k\<close> has been requested once. The call
  returns in no other way: whenever it returns, it does so in one of these two.
\<close>

theorem C7_pagination_stops_at_total_or_error:
  assumes "0 < depth" and "status_code (page_at env c ps w 0) = 200"
  shows "(\<forall>k. (\<forall>j\<le>k. status_code (page_at env c ps w j) = 200) \<and>
              (\<forall>j<k. int (length (records_upto env c ps w j)) < total_records (page_at env c ps w 0)) \<and>
              total_records (page_at env c ps w 0) \<le> int (length (records_upto env c ps w k))
           \<longrightarrow> api_list env depth c ps w =
                 Some (Inr (records_upto env c ps w k), w @ requests_upto c ps k)) \<and>
         (\<forall>k. 0 < k \<and> (\<forall>j<k. status_code (page_at env c ps w j) = 200) \<and>
              (\<forall>j<k. int (length (records_upto env c ps w j)) < total_records (page_at env c ps w 0)) \<and>
              status_code (page_at env c ps w k) \<noteq> 200
           \<longrightarrow> api_list env depth c ps w =
                 Some (Inr (records_upto env c ps w (k - 1)), w @ requests_upto c ps k)) \<and>
         (\<forall>result w'. api_list env depth c ps w = Some (result, w') \<longrightarrow>
            (\<exists>k. w' = w @ requests_upto c ps k \<and>
               (result = Inr (records_upto env c ps w k) \<and>
                total_records (page_at env c ps w 0) \<le> int (length (records_upto env c ps w k)) \<or>
                0 < k \<and> status_code (page_at env c ps w k) \<noteq> 200 \<and>
                result = Inr (records_upto env c ps w (k - 1)) \<and>
                int (length (records_upto env c ps w (k - 1))) < total_records (page_at env c ps w 0))))"
proof (intro conjI allI impI)
  let ?total = "total_records (page_at env c ps w 0)"
  note unfold = api_list_pages[OF assms]
  {
    fix k
    assume h: "(\<forall>j\<le>k. status_code (page_at env c ps w j) = 200) \<and>
              (\<forall>j<k. int (length (records_upto env c ps w j)) < ?total) \<and>
              ?total \<le> int (length (records_upto env c ps w k))"
    then have "fetch_pages env c ps ?total 0 (records_upto env c ps w 0) (w @ requests_upto c ps 0) =
         Some (records_upto env c ps w k, w @ requests_upto c ps k)"
      by (intro fetch_pages_exit_normal) auto
    then show "api_list env depth c ps w = Some (Inr (records_upto env c ps w k), w @ requests_upto c ps k)"
      by (simp add: unfold)
  next
    fix k
    assume h: "0 < k \<and> (\<forall>j<k. status_code (page_at env c ps w j) = 200) \<and>
              (\<forall>j<k. int (length (records_upto env c ps w j)) < ?total) \<and>
              status_code (page_at env c ps w k) \<noteq> 200"
    then have "fetch_pages env c ps ?total 0 (records_upto env c ps w 0) (w @ requests_upto c ps 0) =
         Some (records_upto env c ps w (k - 1), w @ requests_upto c ps k)"
      by (intro fetch_pages_exit_error) auto
    then show "api_list env depth c ps w = Some (Inr (records_upto env c ps w (k - 1)), w @ requests_upto c ps k)"
      by (simp add: unfold)
  next
    fix result w'
    assume "api_list env depth c ps w = Some (result, w')"
    then obtain y where y: "fetch_pages env c ps ?total 0 (records_upto env c ps w 0) (w @ requests_upto c ps 0) = Some y"
      and res: "result = Inr (fst y)" "w' = snd y"
      by (auto simp add: unfold)
    from fetch_pages_returns[OF y, rule_format, of w]
    obtain k where "snd y = w @ requests_upto c ps k"
        "fst y = records_upto env c ps w k \<and> ?total \<le> int (length (fst y)) \<or>
         0 < k \<and> status_code (page_at env c ps w k) \<noteq> 200 \<and>
         fst y = records_upto env c ps w (k - 1) \<and> int (length (fst y)) < ?total"
      by auto
    with res show "\<exists>k. w' = w @ requests_upto c ps k \<and>
               (result = Inr (records_upto env c ps w k) \<and>
                ?total \<le> int (length (records_upto env c ps w k)) \<or>
                0 < k \<and> status_code (page_at env c ps w k) \<noteq> 200 \<and>
                result = Inr (records_upto env c ps w (k - 1)) \<and>
                int (length (records_upto env c ps w (k - 1))) < ?total)"
      by (intro exI[of _ k]) auto
  }
qed


text \<open>
  Three records in two pages, and one page of three records followed by a page that
  fails.
\<close>

theorem C7_pagination_stops_at_total_or_error_witness:
  "api_list (serving [[a_vm 1 RUNNING], [a_vm 2 RUNNING, a_vm 3 RUNNING]] 3
               (region (a_vm 1 RUNNING) (a_router 9 RUNNING) ''KVM''))
      1000 IAAS_vm [(''search[project_id]'', P_int 5)] [] =
     Some (Inr [a_vm 1 RUNNING, a_vm 2 RUNNING, a_vm 3 RUNNING],
           [Request (List_page IAAS_vm [(''search[project_id]'', P_int 5)] 0),
            Request (List_page IAAS_vm [(''search[project_id]'', P_int 5)] 1)]) \<and>
   api_list (serving [[a_vm 1 RUNNING]] 3 (region (a_vm 1 RUNNING) (a_router 9 RUNNING) ''KVM''))
      1000 IAAS_vm [(''search[project_id]'', P_int 5)] [] =
     Some (Inr [a_vm 1 RUNNING],
           [Request (List_page IAAS_vm [(''search[project_id]'', P_int 5)] 0),
            Request (List_page IAAS_vm [(''search[project_id]'', P_int 5)] 1)])"
proof -
  let ?ps = "[(''search[project_id]'', P_int 5)]"
  let ?r = "region (a_vm 1 RUNNING) (a_router 9 RUNNING) ''KVM''"
  let ?e1 = "serving [[a_vm 1 RUNNING], [a_vm 2 RUNNING, a_vm 3 RUNNING]] 3 ?r"
  let ?e2 = "serving [[a_vm 1 RUNNING]] 3 ?r"
  have p1: "page_at ?e1 IAAS_vm ?ps [] j =
      (if j < 2 then page ([[a_vm 1 RUNNING], [a_vm 2 RUNNING, a_vm 3 RUNNING]] ! j) 3
       else \<lparr>status_code = 500, detail = ''error'', content = [], total_records = 0\<rparr>)" for j
    by (simp add: page_at_def serving_def)
  have p2: "page_at ?e2 IAAS_vm ?ps [] j =
      (if j < 1 then page ([[a_vm 1 RUNNING]] ! j) 3
       else \<lparr>status_code = 500, detail = ''error'', content = [], total_records = 0\<rparr>)" for j
    by (simp add: page_at_def serving_def)
  have d: "(0::nat) < 1000" by simp
  have s1: "status_code (page_at ?e1 IAAS_vm ?ps [] 0) = 200" by (simp add: p1 page_def)
  have s2: "status_code (page_at ?e2 IAAS_vm ?ps [] 0) = 200" by (simp add: p2 page_def)
  have r1: "records_upto ?e1 IAAS_vm ?ps [] 0 = [a_vm 1 RUNNING]"
    "records_upto ?e1 IAAS_vm ?ps [] 1 = [a_vm 1 RUNNING, a_vm 2 RUNNING, a_vm 3 RUNNING]"
    by (simp_all add: records_upto_def p1 page_def)
  have r1': "records_upto ?e1 IAAS_vm ?ps [] (Suc 0) = [a_vm 1 RUNNING, a_vm 2 RUNNING, a_vm 3 RUNNING]"
    using r1(2) by simp
  have r2: "records_upto ?e2 IAAS_vm ?ps [] 0 = [a_vm 1 RUNNING]"
    by (simp_all add: records_upto_def p2 page_def)
  have q: "requests_upto IAAS_vm ?ps 1 =
      [Request (List_page IAAS_vm ?ps 0), Request (List_page IAAS_vm ?ps 1)]"
    by (simp add: requests_upto_def)
  have q': "requests_upto IAAS_vm ?ps (Suc 0) =
      [Request (List_page IAAS_vm ?ps 0), Request (List_page IAAS_vm ?ps 1)]"
    using q by simp
  have n1: "(\<forall>j\<le>1. status_code (page_at ?e1 IAAS_vm ?ps [] j) = 200) \<and>
      (\<forall>j<1. int (length (records_upto ?e1 IAAS_vm ?ps [] j)) < total_records (page_at ?e1 IAAS_vm ?ps [] 0)) \<and>
      total_records (page_at ?e1 IAAS_vm ?ps [] 0) \<le> int (length (records_upto ?e1 IAAS_vm ?ps [] 1))"
    by (simp add: p1 page_def r1 r1')
  have n2: "(0::nat) < 1 \<and> (\<forall>j<1. status_code (page_at ?e2 IAAS_vm ?ps [] j) = 200) \<and>
      (\<forall>j<1. int (length (records_upto ?e2 IAAS_vm ?ps [] j)) < total_records (page_at ?e2 IAAS_vm ?ps [] 0)) \<and>
      status_code (page_at ?e2 IAAS_vm ?ps [] 1) \<noteq> 200"
    by (simp add: p2 page_def r2)
  from C7_pagination_stops_at_total_or_error[OF d s1, THEN conjunct1, rule_format, OF n1]
       C7_pagination_stops_at_total_or_error[OF d s2, THEN conjunct2, THEN conjunct1, rule_format, OF n2]
  show ?thesis by (simp add: r1 r1' r2 q q')
qed


text \<open>
  C8. The claim: when more than 40 minutes have elapsed since the token was created, a
  read issues a new token. At a token created at time 0 and read one day and five minutes
  later (1445 minutes elapsed) the read returns the stored token and leaves the instance
  as it was: \<open>.seconds\<close> drops the whole day and sees five minutes.
\<close>

theorem C8_token_stale_after_a_day:
  "minutes 40 < minutes 1445 - created \<lparr>token_value = ''old'', created = 0\<rparr> \<and>
   token \<lparr>token_value = ''old'', created = 0\<rparr> (minutes 1445) ''new'' (minutes 1445)
     = (''old'', \<lparr>token_value = ''old'', created = 0\<rparr>)"
  by (simp add: token_def timedelta_seconds_def THRESHOLD_def minutes_def)

text \<open>
  C9. The claim: on a server of type Phantom every worker, the backup and snapshot
  workers included, runs nothing remotely and writes the success state of its operation.
  The backup and snapshot workers test for the types HyperV and KVM only. The build of
  backup 8 and the build of snapshot 8 on a Phantom server take the branch for an
  unsupported type: they send the failure metric, write \<open>UNRESOURCED\<close> and send the
  failure email. In the same region the build of VM 42 takes the Phantom branch of the VM
  workers: it makes no driver call and writes \<open>RUNNING\<close>.
\<close>

theorem C9_backup_and_snapshot_on_phantom_are_unresourced:
  "build_backup (region (a_backup 8 REQUESTED) (a_router 9 RUNNING) ''Phantom'') 1000 8 [] =
     (None, [Request (Read IAAS_backup 8),
             Request (Partial_update IAAS_backup 8 (State BUILDING)),
             Request (Read IAAS_server 3),
             Metric ''backup_build_failure'',
             Request (Partial_update IAAS_backup 8 (State UNRESOURCED)),
             Email ''backup_build_failure'' 8]) \<and>
   build_snapshot (region (a_snapshot 8 REQUESTED) (a_router 9 RUNNING) ''Phantom'') 1000 8 [] =
     (None, [Request (Read IAAS_snapshot 8),
             Request (Partial_update IAAS_snapshot 8 (State BUILDING)),
             Request (Read IAAS_server 3),
             Metric ''snapshot_build_failure'',
             Request (Partial_update IAAS_snapshot 8 (State UNRESOURCED)),
             Email ''snapshot_build_failure'' 8]) \<and>
   build_vm (region (a_vm 42 REQUESTED) (a_router 9 RUNNING) ''Phantom'') 1000 42 [] =
     (None, [Request (Read IAAS_vm 42),
             Request (Read IAAS_virtual_router 9),
             Request (Partial_update IAAS_vm 42 (State BUILDING)),
             Request (Read IAAS_server 3),
             Request (Partial_update IAAS_vm 42 (State RUNNING)),
             Metric ''vm_build_success''])"
  by (simp add: build_backup_def build_snapshot_def build_def build_run_def build_vm_def
      build_vm_building_def build_vm_run_def region_defs call_defs api_read_unfold)

text \<open>
  C10. A run of the VM build worker that has read the VM in state \<open>REQUESTED\<close> and
  to which \<open>api_read\<close> returns the empty dict for the router: the subscript
  \<open>vm_vr['state']\<close> raises \<open>KeyError\<close>, which nothing in the task catches, and
  the run has made no write and no driver call.
\<close>

theorem C10_vm_build_router_unreadable_raises:
  assumes "api_read env depth IAAS_vm vm_id [] = (Inr (Some vm), w1)"
    and "state vm = REQUESTED"
    and "api_read env depth IAAS_virtual_router (virtual_router_id vm) w1 = (Inr None, w2)"
  shows "build_vm env depth vm_id [] = (Some KeyError, w2) \<and> writes w2 = [] \<and> remotes w2 = []"
proof -
  have "writes w1 = []" "remotes w1 = []"
    using writes_api_read[OF assms(1)] remotes_api_read[OF assms(1)] by simp_all
  then have "writes w2 = []" "remotes w2 = []"
    using writes_api_read[OF assms(3)] remotes_api_read[OF assms(3)] by simp_all
  moreover have "build_vm env depth vm_id [] = (Some KeyError, w2)"
    using assms by (simp add: build_vm_def)
  ultimately show ?thesis by simp
qed

text \<open>VM 42 in \<open>REQUESTED\<close> whose router answers 404.\<close>

theorem C10_vm_build_router_unreadable_raises_witness:
  "build_vm (router_unreadable (region (a_vm 42 REQUESTED) (a_router 9 RUNNING) ''KVM'')) 1000 42 [] =
     (Some KeyError, [Request (Read IAAS_vm 42), Request (Read IAAS_virtual_router 9)]) \<and>
   writes [Request (Read IAAS_vm 42), Request (Read IAAS_virtual_router 9)] = [] \<and>
   remotes [Request (Read IAAS_vm 42), Request (Read IAAS_virtual_router 9)] = []"
proof -
  let ?env = "router_unreadable (region (a_vm 42 REQUESTED) (a_router 9 RUNNING) ''KVM'')"
  have vm: "api_read ?env 1000 IAAS_vm 42 [] = (Inr (Some (a_vm 42 REQUESTED)), [Request (Read IAAS_vm 42)])"
    by (simp add: region_defs call_defs api_read_unfold)
  have req: "state (a_vm 42 REQUESTED) = REQUESTED" by (simp add: a_vm_def)
  have vr: "api_read ?env 1000 IAAS_virtual_router (virtual_router_id (a_vm 42 REQUESTED))
              [Request (Read IAAS_vm 42)] =
            (Inr None, [Request (Read IAAS_vm 42), Request (Read IAAS_virtual_router 9)])"
    by (simp add: region_defs call_defs api_read_unfold)
  from C10_vm_build_router_unreadable_raises[OF vm req vr] show ?thesis .
qed

end
